theory Spec2Isabelle
  imports Main "HOL-Library.Sublist" "HOL-Library.Word"
begin

section \<open>JavaScript values\<close>

text \<open>
  The values that travel through the client as query parameters, as JSON request data and
  as parsed JSON responses: plain data, without functions, symbols or accessors. An object
  is a plain object (its prototype is \<^verbatim>\<open>Object.prototype\<close>), given as the list of its
  own enumerable string-keyed properties in the order in which they were created. Strings
  are byte strings (UTF-8). Numbers are the integers from \<open>- 2 ^ 53\<close> to \<open>2 ^ 53 - 1\<close>, as
  54-bit signed words: each of them is a Number value, and one that prints in decimal.
  Other Number values are outside the model.
\<close>

datatype jsval =
    JUndefined
  | JNull
  | JBool bool
  | JNum "54 word"
  | JStr string
  | JArr "jsval list"
  | JObj "(string \<times> jsval) list"

text \<open>\<^verbatim>\<open>typeof v\<close>.\<close>

fun typeof :: "jsval \<Rightarrow> string" where
  "typeof JUndefined = ''undefined''"
| "typeof JNull = ''object''"
| "typeof (JBool b) = ''boolean''"
| "typeof (JNum n) = ''number''"
| "typeof (JStr s) = ''string''"
| "typeof (JArr xs) = ''object''"
| "typeof (JObj ps) = ''object''"

text \<open>The truthiness test of \<^verbatim>\<open>if (v)\<close>.\<close>

fun truthy :: "jsval \<Rightarrow> bool" where
  "truthy JUndefined = False"
| "truthy JNull = False"
| "truthy (JBool b) = b"
| "truthy (JNum n) = (n \<noteq> 0)"
| "truthy (JStr s) = (s \<noteq> [])"
| "truthy (JArr xs) = True"
| "truthy (JObj ps) = True"

subsection \<open>Number and string conversion\<close>

definition digit :: "nat \<Rightarrow> char" where
  "digit n = ''0123456789'' ! (n mod 10)"

fun decimal_nat :: "nat \<Rightarrow> string" where
  "decimal_nat n = (if n < 10 then [digit n] else decimal_nat (n div 10) @ [digit n])"

definition decimal :: "int \<Rightarrow> string" where
  "decimal i = (if i < 0 then CHR ''-'' # decimal_nat (nat (- i)) else decimal_nat (nat i))"

definition join :: "string \<Rightarrow> string list \<Rightarrow> string" where
  "join sep xs = (case xs of [] \<Rightarrow> [] | y # ys \<Rightarrow> y @ concat (map (\<lambda>s. sep @ s) ys))"

subsection \<open>Property order\<close>

text \<open>
  A property key is an array index when it is the decimal form, without leading zeros, of
  an integer from 0 to \<open>2 ^ 32 - 2\<close>.
\<close>

definition is_digit :: "char \<Rightarrow> bool" where
  "is_digit c = (48 \<le> (of_char c :: nat) \<and> (of_char c :: nat) \<le> 57)"

definition index_value :: "string \<Rightarrow> int" where
  "index_value s = foldl (\<lambda>n c. 10 * n + (of_char c - 48)) 0 s"

definition is_array_index :: "string \<Rightarrow> bool" where
  "is_array_index s =
     (s \<noteq> [] \<and> list_all is_digit s \<and> (length s = 1 \<or> hd s \<noteq> CHR ''0'')
      \<and> index_value s < 4294967295)"

text \<open>
  \<^verbatim>\<open>Object.entries(o)\<close>, and the order of every other enumeration of an object's own
  properties: the array-index keys first, in ascending numeric order, then the remaining
  keys in the order of their creation.
\<close>

definition Object_entries :: "(string \<times> 'a) list \<Rightarrow> (string \<times> 'a) list" where
  "Object_entries ps =
     sort_key (\<lambda>kv. index_value (fst kv)) (filter (\<lambda>kv. is_array_index (fst kv)) ps)
     @ filter (\<lambda>kv. \<not> is_array_index (fst kv)) ps"

subsection \<open>\<^verbatim>\<open>String\<close>\<close>

text \<open>
  \<^verbatim>\<open>String(v)\<close>; \<open>None\<close> is the \<^verbatim>\<open>TypeError\<close> "Cannot convert object to primitive
  value". An array is its elements joined by commas, where \<^verbatim>\<open>null\<close> and
  \<^verbatim>\<open>undefined\<close> elements contribute the empty string. For a plain object the conversion
  looks up \<^verbatim>\<open>toString\<close>: the inherited one gives the fixed text \<^verbatim>\<open>[object Object]\<close>;
  an own property of that name hides it and, being data, cannot be called, and then
  neither an own nor the inherited \<^verbatim>\<open>valueOf\<close> yields a primitive, so the conversion
  throws.
\<close>

fun String_of :: "jsval \<Rightarrow> string option"
  and element_strings :: "jsval list \<Rightarrow> string list option" where
  "String_of JUndefined = Some ''undefined''"
| "String_of JNull = Some ''null''"
| "String_of (JBool b) = Some (if b then ''true'' else ''false'')"
| "String_of (JNum n) = Some (decimal (sint n))"
| "String_of (JStr s) = Some s"
| "String_of (JArr xs) = map_option (join '','') (element_strings xs)"
| "String_of (JObj ps) =
     (if ''toString'' \<in> fst ` set ps then None else Some ''[object Object]'')"
| "element_strings [] = Some []"
| "element_strings (x # xs) =
     (case (if x = JUndefined \<or> x = JNull then Some [] else String_of x) of
        None \<Rightarrow> None
      | Some s \<Rightarrow> map_option ((#) s) (element_strings xs))"

subsection \<open>\<^verbatim>\<open>JSON.stringify\<close>\<close>

definition hex_lower :: "nat \<Rightarrow> char" where
  "hex_lower n = ''0123456789abcdef'' ! (n mod 16)"

definition escape_char :: "char \<Rightarrow> string" where
  "escape_char c =
     (let n = (of_char c :: nat) in
      if c = CHR 0x22 then [CHR 0x5C, CHR 0x22]
      else if c = CHR 0x5C then [CHR 0x5C, CHR 0x5C]
      else if n = 8 then [CHR 0x5C, CHR ''b'']
      else if n = 9 then [CHR 0x5C, CHR ''t'']
      else if n = 10 then [CHR 0x5C, CHR ''n'']
      else if n = 12 then [CHR 0x5C, CHR ''f'']
      else if n = 13 then [CHR 0x5C, CHR ''r'']
      else if n < 32 then [CHR 0x5C, CHR ''u'', CHR ''0'', CHR ''0'', hex_lower (n div 16), hex_lower n]
      else [c])"

definition quote :: "string \<Rightarrow> string" where
  "quote s = [CHR 0x22] @ concat (map escape_char s) @ [CHR 0x22]"

text \<open>
  \<^verbatim>\<open>JSON.stringify(v)\<close>; \<open>None\<close> is the result \<^verbatim>\<open>undefined\<close>. Inside an array
  \<^verbatim>\<open>undefined\<close> prints as \<^verbatim>\<open>null\<close>, inside an object such a property is left out.
  The properties of an object are printed in the order of \<open>Object_entries\<close>.
\<close>

fun JSON_stringify :: "jsval \<Rightarrow> string option"
  and stringify_elements :: "jsval list \<Rightarrow> string list"
  and stringify_properties :: "(string \<times> jsval) list \<Rightarrow> (string \<times> string) list" where
  "JSON_stringify JUndefined = None"
| "JSON_stringify JNull = Some ''null''"
| "JSON_stringify (JBool b) = Some (if b then ''true'' else ''false'')"
| "JSON_stringify (JNum n) = Some (decimal (sint n))"
| "JSON_stringify (JStr s) = Some (quote s)"
| "JSON_stringify (JArr xs) = Some (''['' @ join '','' (stringify_elements xs) @ '']'')"
| "JSON_stringify (JObj ps) =
     Some (''{''
           @ join '','' (map (\<lambda>ks. quote (fst ks) @ '':'' @ snd ks)
                          (Object_entries (stringify_properties ps)))
           @ ''}'')"
| "stringify_elements [] = []"
| "stringify_elements (x # xs) =
     (case JSON_stringify x of None \<Rightarrow> ''null'' | Some s \<Rightarrow> s) # stringify_elements xs"
| "stringify_properties [] = []"
| "stringify_properties ((k, v) # ps) =
     (case JSON_stringify v of
        None \<Rightarrow> stringify_properties ps
      | Some s \<Rightarrow> (k, s) # stringify_properties ps)"

section \<open>URLs and their search parameters\<close>

text \<open>
  A parsed URL: the serialised scheme, authority and path; the list its
  \<^verbatim>\<open>searchParams\<close> object holds; its query and its fragment. Parsing itself is the
  platform's and is a parameter of the model (see \<open>env\<close> below).
\<close>

record URL =
  prefix_part :: string
  searchParams :: "(string \<times> string) list"
  query_part :: "string option"
  fragment_part :: "string option"

definition hex_upper :: "nat \<Rightarrow> char" where
  "hex_upper n = ''0123456789ABCDEF'' ! (n mod 16)"

definition is_alnum :: "char \<Rightarrow> bool" where
  "is_alnum c =
     (let n = (of_char c :: nat) in
      (48 \<le> n \<and> n \<le> 57) \<or> (65 \<le> n \<and> n \<le> 90) \<or> (97 \<le> n \<and> n \<le> 122))"

text \<open>The \<^verbatim>\<open>application/x-www-form-urlencoded\<close> byte serialiser.\<close>

definition urlencode_byte :: "char \<Rightarrow> string" where
  "urlencode_byte c =
     (if c = CHR '' '' then ''+''
      else if is_alnum c \<or> c \<in> set ''*-._'' then [c]
      else [CHR ''%'', hex_upper (of_char c div 16), hex_upper (of_char c)])"

definition urlencode :: "string \<Rightarrow> string" where
  "urlencode s = concat (map urlencode_byte s)"

definition serialize_params :: "(string \<times> string) list \<Rightarrow> string" where
  "serialize_params ps = join ''&'' (map (\<lambda>(k, v). urlencode k @ ''='' @ urlencode v) ps)"

text \<open>\<^verbatim>\<open>url.searchParams.append(k, v)\<close>: extend the list, then update the URL's query.\<close>

definition searchParams_append :: "URL \<Rightarrow> string \<times> string \<Rightarrow> URL" where
  "searchParams_append u kv =
     (let ps = searchParams u @ [kv]; s = serialize_params ps
      in u\<lparr>searchParams := ps, query_part := (if s = [] then None else Some s)\<rparr>)"

text \<open>\<^verbatim>\<open>url.toString()\<close>.\<close>

definition URL_toString :: "URL \<Rightarrow> string" where
  "URL_toString u =
     prefix_part u
     @ (case query_part u of None \<Rightarrow> [] | Some q \<Rightarrow> ''?'' @ q)
     @ (case fragment_part u of None \<Rightarrow> [] | Some f \<Rightarrow> ''#'' @ f)"

section \<open>Doubles\<close>

text \<open>
  A finite double that is not negative: the number \<open>mantissa * 2 ^ exponent\<close>. The doubles
  are the values with a mantissa below \<open>2 ^ 53\<close> and an exponent from \<open>-1074\<close> to \<open>971\<close>;
  \<^verbatim>\<open>Math.random()\<close> returns one that is less than 1.
\<close>

record double =
  mantissa :: nat
  exponent :: int

definition is_double :: "double \<Rightarrow> bool" where
  "is_double d = (mantissa d < 2 ^ 53 \<and> - 1074 \<le> exponent d \<and> exponent d \<le> 971)"

definition less_than_one :: "double \<Rightarrow> bool" where
  "less_than_one d =
     (if 0 \<le> exponent d then mantissa d = 0 else mantissa d < 2 ^ nat (- exponent d))"

fun bit_length :: "nat \<Rightarrow> nat" where
  "bit_length n = (if n = 0 then 0 else Suc (bit_length (n div 2)))"

declare bit_length.simps [simp del]

text \<open>
  The double nearest to the exact value \<open>m * 2 ^ e\<close>, ties to the even mantissa: what a
  double multiplication returns for its exact product. The exponent \<open>e\<close> is that of a
  double, and the value stays below the overflow threshold.
\<close>

definition round_to_double :: "nat \<Rightarrow> int \<Rightarrow> double" where
  "round_to_double m e =
     (if bit_length m \<le> 53 then \<lparr>mantissa = m, exponent = e\<rparr>
      else
        (let s = bit_length m - 53; q = m div 2 ^ s; r = m mod 2 ^ s; h = 2 ^ (s - 1)
         in \<lparr>mantissa = (if h < r \<or> (r = h \<and> odd q) then q + 1 else q),
             exponent = e + int s\<rparr>))"

text \<open>\<^verbatim>\<open>Math.floor(d)\<close>, as an integer.\<close>

definition Math_floor :: "double \<Rightarrow> nat" where
  "Math_floor d =
     (if 0 \<le> exponent d then mantissa d * 2 ^ nat (exponent d)
      else mantissa d div 2 ^ nat (- exponent d))"

section \<open>The transport core: \<^verbatim>\<open>src/http.ts\<close>\<close>

subsection \<open>Requests, responses and the environment\<close>

text \<open>
  What \<^verbatim>\<open>fetch\<close> receives: the URL string and the \<^verbatim>\<open>RequestInit\<close> object
  \<^verbatim>\<open>fetchOptions\<close>; an absent header set or body is \<open>None\<close>.
\<close>

record request =
  url :: string
  init_method :: string
  init_headers :: "(string \<times> string) list option"
  init_body :: "string option"

text \<open>
  The \<^verbatim>\<open>options\<close> argument, of type \<^verbatim>\<open>RequestOptions | JsonRequestOptions\<close>. An
  absent \<^verbatim>\<open>data\<close> is \<open>JUndefined\<close>.
\<close>

record JsonRequestOptions =
  headers :: "(string \<times> string) list option"
  data :: jsval
  query :: "(string \<times> jsval) list option"

text \<open>
  A response: \<open>body_text\<close> is what \<^verbatim>\<open>response.text()\<close> resolves to, \<open>body_json\<close> what
  \<^verbatim>\<open>response.json()\<close> does (\<open>Inl\<close>: it rejects, with that message).
\<close>

record response =
  ok :: bool
  status :: nat
  statusText :: string
  response_headers :: "(string \<times> string) list"
  body_text :: string
  body_json :: "string + jsval"

datatype fetch_result = Resolved response | Rejected string

text \<open>
  Errors a call is rejected with: a \<^verbatim>\<open>TypeError\<close>; the \<^verbatim>\<open>Error\<close> built from a
  failed response, with its message and its \<^verbatim>\<open>response\<close> property; an error of the
  platform (a rejected \<^verbatim>\<open>fetch\<close> or \<^verbatim>\<open>response.json()\<close>), passed on unchanged.
\<close>

datatype error = TypeError string | HttpError string response | Thrown string

fun error_message :: "error \<Rightarrow> string" where
  "error_message (TypeError m) = m"
| "error_message (HttpError m r) = m"
| "error_message (Thrown m) = m"

fun error_response :: "error \<Rightarrow> response option" where
  "error_response (HttpError m r) = Some r"
| "error_response e = None"

text \<open>
  The platform: the URL parser behind \<^verbatim>\<open>new URL\<close> (\<open>None\<close>: it throws), the outcome of
  the k-th call of \<^verbatim>\<open>fetch\<close> for the request it is given, and the value of the k-th call
  of \<^verbatim>\<open>Math.random\<close>, a double.
\<close>

record env =
  URL_parse :: "string \<Rightarrow> URL option"
  fetch :: "nat \<Rightarrow> request \<Rightarrow> fetch_result"
  random :: "nat \<Rightarrow> double"

text \<open>
  What a call has done to the world so far: the requests handed to \<^verbatim>\<open>fetch\<close> and the
  delays handed to \<^verbatim>\<open>setTimeout\<close>, oldest first.
\<close>

record world =
  calls :: "request list"
  delays :: "int list"

subsection \<open>String helpers\<close>

definition toUpperCase_char :: "char \<Rightarrow> char" where
  "toUpperCase_char c =
     (let n = (of_char c :: nat) in if 97 \<le> n \<and> n \<le> 122 then char_of (n - 32) else c)"

definition toUpperCase :: "string \<Rightarrow> string" where
  "toUpperCase s = map toUpperCase_char s"

text \<open>\<^verbatim>\<open>s.replace(/json$/, '')\<close>: the pattern is lower case and anchored at the end.\<close>

definition replace_json :: "string \<Rightarrow> string" where
  "replace_json s = (if suffix ''json'' s then take (length s - 4) s else s)"

text \<open>\<^verbatim>\<open>s.includes(p)\<close>.\<close>

fun includes_str :: "string \<Rightarrow> string \<Rightarrow> bool" where
  "includes_str [] p = (p = [])"
| "includes_str (c # cs) p = (prefix p (c # cs) \<or> includes_str cs p)"

subsection \<open>Rate limiting constants\<close>

definition MIN_REQUEST_DELAY :: int where
  "MIN_REQUEST_DELAY = 500"

definition MAX_REQUEST_DELAY :: int where
  "MAX_REQUEST_DELAY = 7000"

text \<open>
  The delay computed from one value \<open>r\<close> of \<^verbatim>\<open>Math.random()\<close>: the product with
  \<open>MAX_REQUEST_DELAY - MIN_REQUEST_DELAY\<close> is a double multiplication, rounded; the floor
  and the sum are integers below \<open>2 ^ 53\<close> and exact.
\<close>

definition backoff_delay :: "double \<Rightarrow> int" where
  "backoff_delay r =
     int (Math_floor
            (round_to_double (mantissa r * nat (MAX_REQUEST_DELAY - MIN_REQUEST_DELAY))
               (exponent r)))
     + MIN_REQUEST_DELAY"

subsection \<open>\<^verbatim>\<open>makeRequest\<close>\<close>

text \<open>
  \<^verbatim>\<open>entries.forEach(([key, value]) => url.searchParams.append(key, String(value)))\<close>:
  the loop stops at the first value that \<^verbatim>\<open>String\<close> throws on (\<open>None\<close>).
\<close>

fun append_query :: "URL \<Rightarrow> (string \<times> jsval) list \<Rightarrow> URL option" where
  "append_query u [] = Some u"
| "append_query u ((k, v) # entries) =
     (case String_of v of
        None \<Rightarrow> None
      | Some s \<Rightarrow> append_query (searchParams_append u (k, s)) entries)"

text \<open>
  Lines 24 to 52: everything up to the call of \<^verbatim>\<open>fetch\<close>. The URL is parsed first, the
  wire method is the method without a trailing \<^verbatim>\<open>json\<close>, in upper case; a method
  containing \<^verbatim>\<open>json\<close> takes headers and body from the options; both branches append the
  entries of the query. \<^verbatim>\<open>Object.entries\<close> of an absent query throws, and so does
  \<^verbatim>\<open>String\<close> on a value it cannot convert.
\<close>

definition prepare_request ::
  "env \<Rightarrow> string \<Rightarrow> string \<Rightarrow> JsonRequestOptions \<Rightarrow> string \<Rightarrow> error + request" where
  "prepare_request e method uri options baseUri =
     (case URL_parse e (baseUri @ uri) of
        None \<Rightarrow> Inl (TypeError ''Invalid URL'')
      | Some u \<Rightarrow>
          (let m = toUpperCase (replace_json method) in
           if includes_str method ''json'' then
             (case query options of
                None \<Rightarrow> Inl (TypeError ''Cannot convert undefined or null to object'')
              | Some q \<Rightarrow>
                  (case append_query u (Object_entries q) of
                     None \<Rightarrow> Inl (TypeError ''Cannot convert object to primitive value'')
                   | Some u' \<Rightarrow>
                       Inr \<lparr>url = URL_toString u',
                            init_method = m,
                            init_headers = headers options,
                            init_body = (if truthy (data options)
                                         then JSON_stringify (data options) else None)\<rparr>))
           else
             (case query options of
                None \<Rightarrow> Inl (TypeError ''Cannot convert undefined or null to object'')
              | Some q \<Rightarrow>
                  (case append_query u (Object_entries q) of
                     None \<Rightarrow> Inl (TypeError ''Cannot convert object to primitive value'')
                   | Some u' \<Rightarrow>
                       Inr \<lparr>url = URL_toString u',
                            init_method = m,
                            init_headers = None,
                            init_body = None\<rparr>))))"

text \<open>
  The call itself. It returns the outcome (\<open>Inl\<close>: the promise is rejected) and the world
  after it; \<open>None\<close> is a call that never settles. On status 429 it sleeps for the backoff
  delay and calls itself with the same four arguments.
\<close>

partial_function (option) makeRequest ::
  "env \<Rightarrow> string \<Rightarrow> string \<Rightarrow> JsonRequestOptions \<Rightarrow> string \<Rightarrow> world
     \<Rightarrow> ((error + jsval) \<times> world) option" where
  "makeRequest e method uri options baseUri w =
     (case prepare_request e method uri options baseUri of
        Inl err \<Rightarrow> Some (Inl err, w)
      | Inr req \<Rightarrow>
          (let w' = w\<lparr>calls := calls w @ [req]\<rparr> in
           case fetch e (length (calls w)) req of
             Rejected msg \<Rightarrow> Some (Inl (Thrown msg), w')
           | Resolved resp \<Rightarrow>
               if status resp = 429 then
                 makeRequest e method uri options baseUri
                   (w'\<lparr>delays := delays w' @ [backoff_delay (random e (length (delays w')))]\<rparr>)
               else if \<not> ok resp then Some (Inl (HttpError (body_text resp) resp), w')
               else (case body_json resp of
                       Inl msg \<Rightarrow> Some (Inl (Thrown msg), w')
                     | Inr x \<Rightarrow> Some (Inr x, w'))))"

declare makeRequest.simps [code]

section \<open>The client: \<^verbatim>\<open>Trello.makeRequest\<close> in \<^verbatim>\<open>src/trello.ts\<close>\<close>

record Trello =
  this_uri :: string
  this_key :: string
  this_token :: string

definition createQuery :: "Trello \<Rightarrow> (string \<times> jsval) list" where
  "createQuery this = [(''key'', JStr (this_key this)), (''token'', JStr (this_token this))]"

subsection \<open>Object operations\<close>

text \<open>The own enumerable properties an object spread copies from a value, in their order.\<close>

fun own_entries :: "jsval \<Rightarrow> (string \<times> jsval) list" where
  "own_entries (JObj ps) = Object_entries ps"
| "own_entries (JArr xs) = zip (map decimal_nat [0..<length xs]) xs"
| "own_entries (JStr s) = zip (map decimal_nat [0..<length s]) (map (\<lambda>c. JStr [c]) s)"
| "own_entries v = []"

text \<open>
  Defining a property on an object under construction: an existing key keeps its place
  and takes the new value, a new key comes last.
\<close>

fun set_property :: "(string \<times> jsval) list \<Rightarrow> string \<times> jsval \<Rightarrow> (string \<times> jsval) list" where
  "set_property [] kv = [kv]"
| "set_property ((k', v') # ps) kv =
     (if k' = fst kv then (k', snd kv) # ps else (k', v') # set_property ps kv)"

text \<open>\<^verbatim>\<open>{ ...a, ...b }\<close> is \<open>spread (spread [] a) b\<close>.\<close>

definition spread :: "(string \<times> jsval) list \<Rightarrow> (string \<times> jsval) list \<Rightarrow> (string \<times> jsval) list" where
  "spread target src = foldl set_property target src"

text \<open>\<^verbatim>\<open>v.data\<close>: reading a property of \<^verbatim>\<open>null\<close> throws.\<close>

fun get_data :: "jsval \<Rightarrow> error + jsval" where
  "get_data (JObj ps) = Inr (case map_of ps ''data'' of None \<Rightarrow> JUndefined | Some v \<Rightarrow> v)"
| "get_data JNull = Inl (TypeError ''Cannot read properties of null'')"
| "get_data JUndefined = Inl (TypeError ''Cannot read properties of undefined'')"
| "get_data v = Inr JUndefined"

text \<open>\<^verbatim>\<open>delete v.data\<close>.\<close>

fun delete_data :: "jsval \<Rightarrow> jsval" where
  "delete_data (JObj ps) = JObj (filter (\<lambda>kv. fst kv \<noteq> ''data'') ps)"
| "delete_data v = v"

definition the_string :: "jsval \<Rightarrow> string" where
  "the_string v = (case v of JStr s \<Rightarrow> s | _ \<Rightarrow> [])"

subsection \<open>\<^verbatim>\<open>Trello.makeRequest\<close>\<close>

text \<open>
  The generic entry point, lines 66 to 98. An omitted \<^verbatim>\<open>options\<close> (\<open>JUndefined\<close>)
  defaults to the empty object. The result is the outcome, the object \<^verbatim>\<open>options\<close>
  refers to as the call leaves it, and the world.
\<close>

definition Trello_makeRequest ::
  "env \<Rightarrow> Trello \<Rightarrow> jsval \<Rightarrow> string \<Rightarrow> jsval \<Rightarrow> world
     \<Rightarrow> ((error + jsval) \<times> jsval \<times> world) option" where
  "Trello_makeRequest e this requestMethod path options_arg w =
     (let options = (if options_arg = JUndefined then JObj [] else options_arg) in
      if typeof requestMethod \<noteq> ''string'' then
        Some (Inl (TypeError ''requestMethod should be a string''), options, w)
      else if typeof options \<noteq> ''object'' then
        Some (Inl (TypeError ''options should be an object''), options, w)
      else
        (let method = the_string requestMethod;
             keyTokenObj = createQuery this;
             q = spread (spread [] (own_entries options)) keyTokenObj
         in
         if method = ''POST_JSON'' \<or> method = ''PUT_JSON'' then
           (case get_data options of
              Inl err \<Rightarrow> Some (Inl err, options, w)
            | Inr d \<Rightarrow>
                (let jsonOptions =
                       \<lparr>headers = Some [(''Content-Type'', ''application/json'')],
                        data = d,
                        query = Some q\<rparr>;
                     options' = delete_data options
                 in map_option (\<lambda>(r, w'). (r, options', w'))
                      (makeRequest e method path jsonOptions (this_uri this) w)))
         else
           map_option (\<lambda>(r, w'). (r, options, w'))
             (makeRequest e method path
                \<lparr>headers = None, data = JUndefined, query = Some q\<rparr> (this_uri this) w)))"

section \<open>Test doubles: \<^verbatim>\<open>tests/utils.ts\<close> and the mocked \<^verbatim>\<open>fetch\<close>\<close>

text \<open>
  A URL parser for concrete runs: it takes its argument as an already normalised URL
  without query and fragment.
\<close>

definition plain_URL :: "string \<Rightarrow> URL option" where
  "plain_URL s = Some \<lparr>prefix_part = s, searchParams = [], query_part = None, fragment_part = None\<rparr>"

text \<open>
  The response builders of the test utilities; an omitted status or \<^verbatim>\<open>ok\<close> option is
  \<open>None\<close>.
\<close>

definition createMockResponse :: "jsval \<Rightarrow> nat option \<Rightarrow> bool option \<Rightarrow> response" where
  "createMockResponse d st okv =
     \<lparr>ok = (case okv of None \<Rightarrow> True | Some b \<Rightarrow> b),
      status = (case st of None \<Rightarrow> 200 | Some n \<Rightarrow> n),
      statusText = [],
      response_headers = [],
      body_text = (case JSON_stringify d of None \<Rightarrow> [] | Some s \<Rightarrow> s),
      body_json = Inr d\<rparr>"

definition createErrorResponse :: "string \<Rightarrow> nat \<Rightarrow> response" where
  "createErrorResponse errorMessage st =
     \<lparr>ok = False, status = st, statusText = [], response_headers = [],
      body_text = errorMessage, body_json = Inl errorMessage\<rparr>"

definition createRateLimitResponse :: response where
  "createRateLimitResponse =
     \<lparr>ok = False, status = 429, statusText = [], response_headers = [],
      body_text = ''Rate limit exceeded'', body_json = Inl ''response.json is not a function''\<rparr>"

text \<open>
  \<^verbatim>\<open>fetchMock.mockResolvedValueOnce(...)\<close> for each response of the list, then
  \<^verbatim>\<open>mockResolvedValue(dflt)\<close>. The environment of a test run parses URLs with
  \<open>plain_URL\<close>, answers from the mock, and has \<^verbatim>\<open>Math.random()\<close> return 0.
\<close>

definition fetchMock :: "response list \<Rightarrow> response \<Rightarrow> nat \<Rightarrow> request \<Rightarrow> fetch_result" where
  "fetchMock once dflt k rq = Resolved (if k < length once then once ! k else dflt)"

definition mock_env :: "response list \<Rightarrow> response \<Rightarrow> env" where
  "mock_env once dflt = \<lparr>URL_parse = plain_URL, fetch = fetchMock once dflt, random = (\<lambda>k. \<lparr>mantissa = 0, exponent = 0\<rparr>)\<rparr>"

definition world0 :: world where
  "world0 = \<lparr>calls = [], delays = []\<rparr>"

definition test_options :: JsonRequestOptions where
  "test_options =
     \<lparr>headers = None, data = JUndefined,
      query = Some [(''key'', JStr ''test-key''), (''token'', JStr ''test-token'')]\<rparr>"

definition test_request :: request where
  "test_request =
     \<lparr>url = ''https://api.trello.com/test?key=test-key&token=test-token'',
      init_method = ''GET'', init_headers = None, init_body = None\<rparr>"

text \<open>Options of the tests and of the spec's examples.\<close>

definition complex_query_options :: JsonRequestOptions where
  "complex_query_options =
     \<lparr>headers = None, data = JUndefined,
      query = Some [(''key'', JStr ''k''), (''token'', JStr ''t''), (''name'', JStr ''Card Title''),
                    (''array'', JArr [JNum 1, JNum 2, JNum 3]),
                    (''object'', JObj [(''a'', JNum 1), (''b'', JNum 2)]),
                    (''nullValue'', JNull)]\<rparr>"

definition json_options :: JsonRequestOptions where
  "json_options =
     \<lparr>headers = Some [(''Content-Type'', ''application/json'')],
      data = JObj [(''a'', JNum 1)],
      query = Some [(''key'', JStr ''test-key''), (''token'', JStr ''test-token'')]\<rparr>"

text \<open>The client of \<^verbatim>\<open>tests/trello.test.ts\<close>: \<^verbatim>\<open>new Trello('key', 'token')\<close>.\<close>

definition test_trello :: Trello where
  "test_trello = \<lparr>this_uri = ''https://api.trello.com'', this_key = ''key'', this_token = ''token''\<rparr>"

section \<open>Properties of the transport core\<close>

subsection \<open>One pass through \<^verbatim>\<open>makeRequest\<close>\<close>

lemma makeRequest_settles:
  assumes "prepare_request e method uri options baseUri = Inr req"
    and "fetch e (length (calls w)) req = Resolved resp"
    and "status resp \<noteq> 429"
  shows "makeRequest e method uri options baseUri w =
           Some (if \<not> ok resp then Inl (HttpError (body_text resp) resp)
                 else (case body_json resp of Inl msg \<Rightarrow> Inl (Thrown msg) | Inr x \<Rightarrow> Inr x),
                 w\<lparr>calls := calls w @ [req]\<rparr>)"
  using assms by (subst makeRequest.simps) (simp split: sum.splits)

lemma makeRequest_retries:
  assumes "prepare_request e method uri options baseUri = Inr req"
    and "fetch e (length (calls w)) req = Resolved resp"
    and "status resp = 429"
  shows "makeRequest e method uri options baseUri w =
           makeRequest e method uri options baseUri
             (w\<lparr>calls := calls w @ [req],
                delays := delays w @ [backoff_delay (random e (length (delays w)))]\<rparr>)"
  using assms by (subst makeRequest.simps) simp

lemma makeRequest_after_429s:
  assumes "prepare_request e method uri options baseUri = Inr req"
    and "\<forall>i<n. \<exists>r. fetch e (length (calls w) + i) req = Resolved r \<and> status r = 429"
  shows "makeRequest e method uri options baseUri w =
           makeRequest e method uri options baseUri
             (w\<lparr>calls := calls w @ replicate n req,
                delays := delays w @
                  map (\<lambda>i. backoff_delay (random e (length (delays w) + i))) [0..<n]\<rparr>)"
  using assms(2)
proof (induction n)
  case 0
  then show ?case by simp
next
  case (Suc n)
  let ?w = "w\<lparr>calls := calls w @ replicate n req,
                delays := delays w @
                  map (\<lambda>i. backoff_delay (random e (length (delays w) + i))) [0..<n]\<rparr>"
  from Suc.prems have "\<forall>i<n. \<exists>r. fetch e (length (calls w) + i) req = Resolved r \<and> status r = 429"
    by simp
  then have a: "makeRequest e method uri options baseUri w = makeRequest e method uri options baseUri ?w"
    by (rule Suc.IH)
  from Suc.prems obtain r where r: "fetch e (length (calls w) + n) req = Resolved r" "status r = 429"
    by auto
  have "makeRequest e method uri options baseUri ?w =
          makeRequest e method uri options baseUri
             (?w\<lparr>calls := calls ?w @ [req],
                delays := delays ?w @ [backoff_delay (random e (length (delays ?w)))]\<rparr>)"
    by (rule makeRequest_retries[OF assms(1), of _ r]) (use r in simp_all)
  also have "(?w\<lparr>calls := calls ?w @ [req],
                delays := delays ?w @ [backoff_delay (random e (length (delays ?w)))]\<rparr>) =
     w\<lparr>calls := calls w @ replicate (Suc n) req,
                delays := delays w @
                  map (\<lambda>i. backoff_delay (random e (length (delays w) + i))) [0..<Suc n]\<rparr>"
    by (simp add: replicate_append_same)
  finally show ?case using a by simp
qed

lemma makeRequest_never_settles:
  assumes "prepare_request e method uri options baseUri = Inr req"
    and "\<forall>i. \<exists>r. fetch e (length (calls w) + i) req = Resolved r \<and> status r = 429"
  shows "makeRequest e method uri options baseUri w = None"
proof (rule ccontr)
  assume "makeRequest e method uri options baseUri w \<noteq> None"
  then obtain y where y: "makeRequest e method uri options baseUri w = Some y" by auto
  have "\<not> (\<exists>req. prepare_request e method uri options baseUri = Inr req \<and>
          (\<forall>i. \<exists>r. fetch e (length (calls w) + i) req = Resolved r \<and> status r = 429))"
  proof (rule makeRequest.raw_induct
      [where P = "\<lambda>e method uri options baseUri w y.
         \<not> (\<exists>req. prepare_request e method uri options baseUri = Inr req \<and>
          (\<forall>i. \<exists>r. fetch e (length (calls w) + i) req = Resolved r \<and> status r = 429))", OF _ y],
      goal_cases)
    case (1 f e1 m1 u1 o1 b1 w1 y1)
    show ?case
    proof
      assume "\<exists>req. prepare_request e1 m1 u1 o1 b1 = Inr req \<and>
          (\<forall>i. \<exists>r. fetch e1 (length (calls w1) + i) req = Resolved r \<and> status r = 429)"
      then obtain req where p: "prepare_request e1 m1 u1 o1 b1 = Inr req"
        and all: "\<forall>i. \<exists>r. fetch e1 (length (calls w1) + i) req = Resolved r \<and> status r = 429"
        by blast
      from all obtain r where r: "fetch e1 (length (calls w1)) req = Resolved r" "status r = 429"
        by (metis add.right_neutral)
      let ?w = "w1\<lparr>calls := calls w1 @ [req],
                delays := delays w1 @ [backoff_delay (random e1 (length (delays w1)))]\<rparr>"
      from "1"(2) p r have "f e1 m1 u1 o1 b1 ?w = Some y1"
        by (simp add: Let_def)
      then have "\<not> (\<exists>req. prepare_request e1 m1 u1 o1 b1 = Inr req \<and>
          (\<forall>i. \<exists>r. fetch e1 (length (calls ?w) + i) req = Resolved r \<and> status r = 429))"
        by (rule "1"(1))
      moreover have "\<forall>i. \<exists>r. fetch e1 (length (calls ?w) + i) req = Resolved r \<and> status r = 429"
      proof
        fix i
        from all have "\<exists>r. fetch e1 (length (calls w1) + Suc i) req = Resolved r \<and> status r = 429"
          by blast
        then show "\<exists>r. fetch e1 (length (calls ?w) + i) req = Resolved r \<and> status r = 429"
          by simp
      qed
      ultimately show False using p by blast
    qed
  qed
  with assms show False by blast
qed


text \<open>The mocked environment always sleeps for the shortest delay.\<close>

lemma backoff_delay_mock_env: "backoff_delay (random (mock_env once dflt) k) = 500"
  by (simp add: mock_env_def backoff_delay_def round_to_double_def Math_floor_def
      bit_length.simps MIN_REQUEST_DELAY_def)

lemma prepare_test_request:
  "prepare_request (mock_env once dflt) ''get'' ''/test'' test_options ''https://api.trello.com''
     = Inr test_request"
  by code_simp

subsection \<open>Retry, then success\<close>

text \<open>
  C1: when the request can be built, the transport answers the first call with status 429
  and the second call with a 2xx response whose JSON body is \<open>Y\<close>, then \<open>makeRequest\<close>
  resolves to \<open>Y\<close>, the transport has been called exactly twice, and both calls carry the
  same request (URL with its query, wire method, headers and body).
\<close>

theorem makeRequest_retry_then_succeed:
  assumes "prepare_request e method uri options baseUri = Inr req"
    and "fetch e (length (calls w)) req = Resolved r1" and "status r1 = 429"
    and "fetch e (Suc (length (calls w))) req = Resolved r2"
    and "ok r2" and "200 \<le> status r2" and "status r2 \<le> 299" and "body_json r2 = Inr Y"
  shows "makeRequest e method uri options baseUri w =
           Some (Inr Y,
                 w\<lparr>calls := calls w @ [req, req],
                   delays := delays w @ [backoff_delay (random e (length (delays w)))]\<rparr>)"
proof -
  let ?w = "w\<lparr>calls := calls w @ [req],
               delays := delays w @ [backoff_delay (random e (length (delays w)))]\<rparr>"
  have "makeRequest e method uri options baseUri w = makeRequest e method uri options baseUri ?w"
    using assms(1-3) by (rule makeRequest_retries)
  also have "\<dots> = Some (if \<not> ok r2 then Inl (HttpError (body_text r2) r2)
                 else (case body_json r2 of Inl msg \<Rightarrow> Inl (Thrown msg) | Inr x \<Rightarrow> Inr x),
                 ?w\<lparr>calls := calls ?w @ [req]\<rparr>)"
    by (rule makeRequest_settles[OF assms(1)]) (use assms in simp_all)
  finally show ?thesis using assms by simp
qed

text \<open>
  The run of \<^verbatim>\<open>tests/http.test.ts\<close>, "should handle rate limiting and retry".
\<close>

theorem makeRequest_retry_then_succeed_witness:
  "prepare_request (mock_env [createRateLimitResponse, createMockResponse (JObj [(''success'', JBool True)]) None None] createRateLimitResponse)
      ''get'' ''/test'' test_options ''https://api.trello.com'' = Inr test_request
   \<and> makeRequest (mock_env [createRateLimitResponse, createMockResponse (JObj [(''success'', JBool True)]) None None] createRateLimitResponse)
      ''get'' ''/test'' test_options ''https://api.trello.com'' world0
     = Some (Inr (JObj [(''success'', JBool True)]),
             \<lparr>calls = [test_request, test_request], delays = [500]\<rparr>)"
proof -
  let ?ok = "createMockResponse (JObj [(''success'', JBool True)]) None None"
  let ?e = "mock_env [createRateLimitResponse, ?ok] createRateLimitResponse"
  have p: "prepare_request ?e ''get'' ''/test'' test_options ''https://api.trello.com'' = Inr test_request"
    by (rule prepare_test_request)
  have f0: "fetch ?e (length (calls world0)) test_request = Resolved createRateLimitResponse"
    by (simp add: mock_env_def fetchMock_def world0_def)
  have f1: "fetch ?e (Suc (length (calls world0))) test_request = Resolved ?ok"
    by (simp add: mock_env_def fetchMock_def world0_def)
  have s0: "status createRateLimitResponse = 429"
    by (simp add: createRateLimitResponse_def)
  have s1: "ok ?ok" "200 \<le> status ?ok" "status ?ok \<le> 299"
    "body_json ?ok = Inr (JObj [(''success'', JBool True)])"
    by (simp_all add: createMockResponse_def)
  have d: "backoff_delay (random ?e (length (delays world0))) = 500"
    by (rule backoff_delay_mock_env)
  from makeRequest_retry_then_succeed [OF p f0 s0 f1 s1] d p show ?thesis
    by (simp add: world0_def)
qed

subsection \<open>Success passthrough\<close>

text \<open>
  C6: when the response that ends the call (the first one, or the one that follows any
  number \<open>n\<close> of 429 responses) has \<^verbatim>\<open>ok\<close> true and its JSON body parses to \<open>X\<close>, then
  \<open>makeRequest\<close> resolves to exactly \<open>X\<close>, whatever value \<open>X\<close> is. A response of
  \<^verbatim>\<open>fetch\<close> has \<^verbatim>\<open>ok\<close> true only with a status from 200 to 299, so its status is not
  429.
\<close>

theorem makeRequest_success_passthrough:
  assumes "prepare_request e method uri options baseUri = Inr req"
    and "\<forall>i<n. \<exists>r. fetch e (length (calls w) + i) req = Resolved r \<and> status r = 429"
    and "fetch e (length (calls w) + n) req = Resolved resp"
    and "ok resp" and "status resp \<noteq> 429" and "body_json resp = Inr X"
  shows "makeRequest e method uri options baseUri w =
           Some (Inr X,
                 w\<lparr>calls := calls w @ replicate (Suc n) req,
                   delays := delays w @
                     map (\<lambda>i. backoff_delay (random e (length (delays w) + i))) [0..<n]\<rparr>)"
proof -
  let ?w = "w\<lparr>calls := calls w @ replicate n req,
               delays := delays w @
                 map (\<lambda>i. backoff_delay (random e (length (delays w) + i))) [0..<n]\<rparr>"
  have "makeRequest e method uri options baseUri w = makeRequest e method uri options baseUri ?w"
    using assms(1,2) by (rule makeRequest_after_429s)
  also have "\<dots> = Some (if \<not> ok resp then Inl (HttpError (body_text resp) resp)
                 else (case body_json resp of Inl msg \<Rightarrow> Inl (Thrown msg) | Inr x \<Rightarrow> Inr x),
                 ?w\<lparr>calls := calls ?w @ [req]\<rparr>)"
    by (rule makeRequest_settles[OF assms(1)]) (use assms in simp_all)
  finally show ?thesis using assms(4,6) by (simp add: replicate_append_same)
qed

text \<open>The empty object at the first call, and an array after two 429 responses.\<close>

theorem makeRequest_success_passthrough_witness:
  "prepare_request (mock_env [createMockResponse (JObj []) None None] createRateLimitResponse)
      ''get'' ''/test'' test_options ''https://api.trello.com'' = Inr test_request
   \<and> makeRequest (mock_env [createMockResponse (JObj []) None None] createRateLimitResponse)
      ''get'' ''/test'' test_options ''https://api.trello.com'' world0
     = Some (Inr (JObj []), \<lparr>calls = [test_request], delays = []\<rparr>)
   \<and> makeRequest (mock_env [createRateLimitResponse, createRateLimitResponse] (createMockResponse (JArr [JNum 1, JStr ''a'']) None None))
      ''get'' ''/test'' test_options ''https://api.trello.com'' world0
     = Some (Inr (JArr [JNum 1, JStr ''a'']),
             \<lparr>calls = [test_request, test_request, test_request], delays = [500, 500]\<rparr>)"
proof -
  let ?ok = "createMockResponse (JObj []) None None"
  let ?e = "mock_env [?ok] createRateLimitResponse"
  have p: "prepare_request ?e ''get'' ''/test'' test_options ''https://api.trello.com'' = Inr test_request"
    by (rule prepare_test_request)
  have r: "\<forall>i<0. \<exists>r. fetch ?e (length (calls world0) + i) test_request = Resolved r \<and> status r = 429"
    by simp
  have f: "fetch ?e (length (calls world0) + 0) test_request = Resolved ?ok"
    by (simp add: mock_env_def fetchMock_def world0_def)
  have s: "ok ?ok" "status ?ok \<noteq> 429" "body_json ?ok = Inr (JObj [])"
    by (simp_all add: createMockResponse_def)
  let ?arr = "createMockResponse (JArr [JNum 1, JStr ''a'']) None None"
  let ?e2 = "mock_env [createRateLimitResponse, createRateLimitResponse] ?arr"
  have p2: "prepare_request ?e2 ''get'' ''/test'' test_options ''https://api.trello.com'' = Inr test_request"
    by (rule prepare_test_request)
  have r2: "\<forall>i<2. \<exists>r. fetch ?e2 (length (calls world0) + i) test_request = Resolved r \<and> status r = 429"
    by (simp add: mock_env_def fetchMock_def world0_def createRateLimitResponse_def less_Suc_eq numeral_2_eq_2)
  have f2: "fetch ?e2 (length (calls world0) + 2) test_request = Resolved ?arr"
    by (simp add: mock_env_def fetchMock_def world0_def)
  have s2: "ok ?arr" "status ?arr \<noteq> 429" "body_json ?arr = Inr (JArr [JNum 1, JStr ''a''])"
    by (simp_all add: createMockResponse_def)
  have d: "map (\<lambda>i. backoff_delay (random ?e2 (length (delays world0) + i))) [0..<2] = [500, 500]"
    by (simp add: backoff_delay_mock_env upt_rec numeral_2_eq_2)
  from makeRequest_success_passthrough [OF p r f s]
    makeRequest_success_passthrough [OF p2 r2 f2 s2] d p
  show ?thesis
    by (simp add: world0_def numeral_2_eq_2 numeral_3_eq_3)
qed

subsection \<open>Error surfacing\<close>

text \<open>
  C5: when the response that ends the call has \<^verbatim>\<open>ok\<close> false and a status other than
  429, then \<open>makeRequest\<close> rejects with an error whose message is the response's body text
  and whose \<^verbatim>\<open>response\<close> property is the whole response, status included.
\<close>

theorem makeRequest_error_surfacing:
  assumes "prepare_request e method uri options baseUri = Inr req"
    and "\<forall>i<n. \<exists>r. fetch e (length (calls w) + i) req = Resolved r \<and> status r = 429"
    and "fetch e (length (calls w) + n) req = Resolved resp"
    and "\<not> ok resp" and "status resp \<noteq> 429"
  shows "\<exists>err. makeRequest e method uri options baseUri w =
           Some (Inl err,
                 w\<lparr>calls := calls w @ replicate (Suc n) req,
                   delays := delays w @
                     map (\<lambda>i. backoff_delay (random e (length (delays w) + i))) [0..<n]\<rparr>)
           \<and> error_message err = body_text resp
           \<and> error_response err = Some resp"
proof -
  let ?w = "w\<lparr>calls := calls w @ replicate n req,
               delays := delays w @
                 map (\<lambda>i. backoff_delay (random e (length (delays w) + i))) [0..<n]\<rparr>"
  have "makeRequest e method uri options baseUri w = makeRequest e method uri options baseUri ?w"
    using assms(1,2) by (rule makeRequest_after_429s)
  also have "\<dots> = Some (if \<not> ok resp then Inl (HttpError (body_text resp) resp)
                 else (case body_json resp of Inl msg \<Rightarrow> Inl (Thrown msg) | Inr x \<Rightarrow> Inr x),
                 ?w\<lparr>calls := calls ?w @ [req]\<rparr>)"
    by (rule makeRequest_settles[OF assms(1)]) (use assms in simp_all)
  finally have "makeRequest e method uri options baseUri w =
      Some (Inl (HttpError (body_text resp) resp),
                 w\<lparr>calls := calls w @ replicate (Suc n) req,
                   delays := delays w @
                     map (\<lambda>i. backoff_delay (random e (length (delays w) + i))) [0..<n]\<rparr>)"
    using assms(4) by (simp add: replicate_append_same)
  then show ?thesis by simp
qed

text \<open>Status 404 with the body text \<^verbatim>\<open>Not Found\<close>.\<close>

theorem makeRequest_error_surfacing_witness:
  "prepare_request (mock_env [createErrorResponse ''Not Found'' 404] createRateLimitResponse)
      ''get'' ''/test'' test_options ''https://api.trello.com'' = Inr test_request
   \<and> (\<exists>err. makeRequest (mock_env [createErrorResponse ''Not Found'' 404] createRateLimitResponse)
      ''get'' ''/test'' test_options ''https://api.trello.com'' world0
         = Some (Inl err, \<lparr>calls = [test_request], delays = []\<rparr>)
       \<and> error_message err = ''Not Found''
       \<and> map_option status (error_response err) = Some 404)"
proof -
  let ?r = "createErrorResponse ''Not Found'' 404"
  let ?e = "mock_env [?r] createRateLimitResponse"
  have p: "prepare_request ?e ''get'' ''/test'' test_options ''https://api.trello.com'' = Inr test_request"
    by (rule prepare_test_request)
  have r: "\<forall>i<0. \<exists>r. fetch ?e (length (calls world0) + i) test_request = Resolved r \<and> status r = 429"
    by simp
  have f: "fetch ?e (length (calls world0) + 0) test_request = Resolved ?r"
    by (simp add: mock_env_def fetchMock_def world0_def)
  have s: "\<not> ok ?r" "status ?r \<noteq> 429"
    by (simp_all add: createErrorResponse_def)
  have t: "body_text ?r = ''Not Found''" "status ?r = 404"
    by (simp_all add: createErrorResponse_def)
  from makeRequest_error_surfacing [OF p r f s] obtain err where
    "makeRequest ?e ''get'' ''/test'' test_options ''https://api.trello.com'' world0 =
       Some (Inl err, world0\<lparr>calls := calls world0 @ replicate (Suc 0) test_request,
                   delays := delays world0 @
                     map (\<lambda>i. backoff_delay (random ?e (length (delays world0) + i))) [0..<0]\<rparr>)"
    "error_message err = body_text ?r" "error_response err = Some ?r"
    by blast
  with p t show ?thesis
    by (simp add: world0_def)
qed

subsection \<open>No retry ceiling\<close>

text \<open>
  C2: \<open>makeRequest\<close> retries on every 429 and keeps no count. For every \<open>n\<close>, a transport
  that answers \<open>n\<close> calls with 429 before any other response is called \<open>n + 1\<close> times,
  which is more than \<open>n\<close>; and under a transport that answers every call with 429 the
  call never settles.
\<close>

theorem makeRequest_no_retry_ceiling:
  assumes "prepare_request e method uri options baseUri = Inr req"
  shows "((\<forall>i<n. \<exists>r. fetch e (length (calls w) + i) req = Resolved r \<and> status r = 429)
          \<and> (\<exists>r. fetch e (length (calls w) + n) req = Resolved r \<and> status r \<noteq> 429)
          \<longrightarrow> (\<exists>res w'. makeRequest e method uri options baseUri w = Some (res, w')
                \<and> calls w' = calls w @ replicate (Suc n) req
                \<and> length (delays w') = length (delays w) + n))
       \<and> ((\<forall>i. \<exists>r. fetch e (length (calls w) + i) req = Resolved r \<and> status r = 429)
          \<longrightarrow> makeRequest e method uri options baseUri w = None)"
proof (intro conjI impI)
  assume a: "(\<forall>i<n. \<exists>r. fetch e (length (calls w) + i) req = Resolved r \<and> status r = 429)
          \<and> (\<exists>r. fetch e (length (calls w) + n) req = Resolved r \<and> status r \<noteq> 429)"
  then obtain resp where resp: "fetch e (length (calls w) + n) req = Resolved resp" "status resp \<noteq> 429"
    by blast
  let ?w = "w\<lparr>calls := calls w @ replicate n req,
               delays := delays w @
                 map (\<lambda>i. backoff_delay (random e (length (delays w) + i))) [0..<n]\<rparr>"
  have "makeRequest e method uri options baseUri w = makeRequest e method uri options baseUri ?w"
    using assms a by (intro makeRequest_after_429s) simp_all
  also have "\<dots> = Some (if \<not> ok resp then Inl (HttpError (body_text resp) resp)
                 else (case body_json resp of Inl msg \<Rightarrow> Inl (Thrown msg) | Inr x \<Rightarrow> Inr x),
                 ?w\<lparr>calls := calls ?w @ [req]\<rparr>)"
    by (rule makeRequest_settles[OF assms]) (use resp in simp_all)
  finally show "\<exists>res w'. makeRequest e method uri options baseUri w = Some (res, w')
                \<and> calls w' = calls w @ replicate (Suc n) req
                \<and> length (delays w') = length (delays w) + n"
    by (simp add: replicate_append_same)
next
  assume "\<forall>i. \<exists>r. fetch e (length (calls w) + i) req = Resolved r \<and> status r = 429"
  with assms show "makeRequest e method uri options baseUri w = None"
    by (rule makeRequest_never_settles)
qed

text \<open>Two 429 responses and then a success; and a transport that always answers 429.\<close>

theorem makeRequest_no_retry_ceiling_witness:
  "prepare_request (mock_env [] createRateLimitResponse)
      ''get'' ''/test'' test_options ''https://api.trello.com'' = Inr test_request
   \<and> (\<exists>res w'. makeRequest
          (mock_env [createRateLimitResponse, createRateLimitResponse]
             (createMockResponse (JObj []) None None))
          ''get'' ''/test'' test_options ''https://api.trello.com'' world0 = Some (res, w')
        \<and> calls w' = [test_request, test_request, test_request]
        \<and> length (delays w') = 2)
   \<and> makeRequest (mock_env [] createRateLimitResponse)
        ''get'' ''/test'' test_options ''https://api.trello.com'' world0 = None"
proof -
  let ?ok = "createMockResponse (JObj []) None None"
  let ?e = "mock_env [createRateLimitResponse, createRateLimitResponse] ?ok"
  let ?e' = "mock_env [] createRateLimitResponse"
  have p: "prepare_request ?e ''get'' ''/test'' test_options ''https://api.trello.com'' = Inr test_request"
    by (rule prepare_test_request)
  have p': "prepare_request ?e' ''get'' ''/test'' test_options ''https://api.trello.com'' = Inr test_request"
    by (rule prepare_test_request)
  have r: "(\<forall>i<2. \<exists>r. fetch ?e (length (calls world0) + i) test_request = Resolved r \<and> status r = 429)
      \<and> (\<exists>r. fetch ?e (length (calls world0) + 2) test_request = Resolved r \<and> status r \<noteq> 429)"
    by (simp add: mock_env_def fetchMock_def world0_def createRateLimitResponse_def
        createMockResponse_def less_Suc_eq numeral_2_eq_2)
  have r': "\<forall>i. \<exists>r. fetch ?e' (length (calls world0) + i) test_request = Resolved r \<and> status r = 429"
    by (simp add: mock_env_def fetchMock_def createRateLimitResponse_def)
  from makeRequest_no_retry_ceiling [OF p, of 2 world0] r
  have "\<exists>res w'. makeRequest ?e ''get'' ''/test'' test_options ''https://api.trello.com'' world0
          = Some (res, w')
        \<and> calls w' = calls world0 @ replicate (Suc 2) test_request
        \<and> length (delays w') = length (delays world0) + 2"
    by blast
  moreover from makeRequest_no_retry_ceiling [OF p', of 0 world0] r'
  have "makeRequest ?e' ''get'' ''/test'' test_options ''https://api.trello.com'' world0 = None"
    by blast
  ultimately show ?thesis using p'
    by (simp add: world0_def numeral_2_eq_2)
qed

subsection \<open>The backoff delay\<close>

text \<open>The number of bits of a number.\<close>

lemma bit_length_upper: "n < 2 ^ bit_length n"
proof (induction n rule: bit_length.induct)
  case (1 n)
  show ?case
  proof (cases "n = 0")
    case True
    then show ?thesis by (simp add: bit_length.simps)
  next
    case False
    with 1 have "n div 2 < 2 ^ bit_length (n div 2)" by simp
    then have "n < 2 * 2 ^ bit_length (n div 2)" by linarith
    with False show ?thesis by (subst bit_length.simps) simp
  qed
qed

lemma bit_length_lower: "0 < n \<Longrightarrow> 2 ^ (bit_length n - 1) \<le> n"
proof (induction n rule: bit_length.induct)
  case (1 n)
  show ?case
  proof (cases "n div 2 = 0")
    case True
    with 1 have "n = 1" by linarith
    then show ?thesis by (simp add: bit_length.simps)
  next
    case False
    with 1 have "2 ^ (bit_length (n div 2) - 1) \<le> n div 2" by simp
    then have a: "2 * 2 ^ (bit_length (n div 2) - 1) \<le> n" by linarith
    from False have "0 < bit_length (n div 2)" by (subst bit_length.simps) simp
    then have "2 * 2 ^ (bit_length (n div 2) - 1) = (2::nat) ^ bit_length (n div 2)"
      by (cases "bit_length (n div 2)") simp_all
    with a have "2 ^ bit_length (n div 2) \<le> n" by simp
    moreover from 1 have "bit_length n = Suc (bit_length (n div 2))"
      by (subst bit_length.simps) simp
    ultimately show ?thesis by simp
  qed
qed

lemma bit_length_le: "n < 2 ^ k \<Longrightarrow> bit_length n \<le> k"
proof (rule ccontr)
  assume n: "n < 2 ^ k" and "\<not> bit_length n \<le> k"
  then have k: "k \<le> bit_length n - 1" by simp
  then have "0 < bit_length n" using \<open>\<not> bit_length n \<le> k\<close> by simp
  then have "0 < n" by (cases "n = 0") (simp_all add: bit_length.simps)
  then have a: "2 ^ (bit_length n - 1) \<le> n" by (rule bit_length_lower)
  from k have "(2::nat) ^ k \<le> 2 ^ (bit_length n - 1)"
    by (rule power_increasing) simp
  from this a have "2 ^ k \<le> n" by (rule order_trans)
  with n show False by simp
qed

text \<open>Rounding to nearest moves a mantissa up by at most half a unit.\<close>

lemma rounded_mantissa_le:
  fixes m s :: nat
  assumes "0 < s"
  shows "(if 2 ^ (s - 1) < m mod 2 ^ s \<or> (m mod 2 ^ s = 2 ^ (s - 1) \<and> odd (m div 2 ^ s))
          then m div 2 ^ s + 1 else m div 2 ^ s)
         \<le> (m + 2 ^ (s - 1)) div 2 ^ s"
proof -
  from assms have two: "(2::nat) ^ s = 2 * 2 ^ (s - 1)"
    by (cases s) simp_all
  have le: "m div 2 ^ s \<le> (m + 2 ^ (s - 1)) div 2 ^ s"
    by (rule div_le_mono) simp
  have up: "m div 2 ^ s + 1 \<le> (m + 2 ^ (s - 1)) div 2 ^ s" if "2 ^ (s - 1) \<le> m mod 2 ^ s"
  proof -
    have "m = m div 2 ^ s * 2 ^ s + m mod 2 ^ s" by (rule div_mult_mod_eq [symmetric])
    with that have "(m div 2 ^ s + 1) * 2 ^ s \<le> m + 2 ^ (s - 1)"
      using two by (simp add: algebra_simps)
    then show ?thesis by (simp add: less_eq_div_iff_mult_less_eq)
  qed
  show ?thesis using le up by auto
qed

text \<open>
  For a double below 1 the rounded product with 6500 stays below 6500: the product is at
  most \<open>6500 - 6500 / 2 ^ k\<close> for the exponent \<open>- k\<close>, and rounding adds less than that
  distance.
\<close>

lemma Math_floor_product_less:
  assumes d: "is_double r" and l: "less_than_one r"
  shows "Math_floor (round_to_double (mantissa r * 6500) (exponent r)) < 6500"
proof (cases "0 \<le> exponent r")
  case True
  with l have "mantissa r = 0" by (simp add: less_than_one_def)
  then show ?thesis
    by (simp add: round_to_double_def Math_floor_def bit_length.simps)
next
  case False
  define k where "k = nat (- exponent r)"
  define M where "M = mantissa r * 6500"
  from False have e: "exponent r = - int k" and k0: "0 < k" by (simp_all add: k_def)
  from l False have mk: "mantissa r < 2 ^ k" by (simp add: less_than_one_def k_def)
  then have Mk: "M + 6500 \<le> 6500 * 2 ^ k" by (simp add: M_def)
  show ?thesis
  proof (cases "bit_length M \<le> 53")
    case True
    from Mk have "M < 6500 * 2 ^ k" by simp
    then have "M div 2 ^ k < 6500" by (simp add: less_mult_imp_div_less)
    with True False show ?thesis
      by (simp add: round_to_double_def Math_floor_def M_def [symmetric] k_def [symmetric])
  next
    case long: False
    define s where "s = bit_length M - 53"
    from long have s0: "0 < s" and bl: "bit_length M = s + 53" by (simp_all add: s_def)
    from d have "mantissa r < 2 ^ 53" by (simp add: is_double_def)
    then have "M < 2 ^ 66" by (simp add: M_def)
    then have "bit_length M \<le> 66" by (rule bit_length_le)
    with bl have s13: "s \<le> 13" by simp
    from long have "0 < M" by (cases "M = 0") (simp_all add: bit_length.simps)
    then have "2 ^ (bit_length M - 1) \<le> M" by (rule bit_length_lower)
    with bl have "2 ^ (52 + s) \<le> M" by simp
    also from Mk have "M < 2 ^ 13 * 2 ^ k" by simp
    finally have "(2::nat) ^ (52 + s) < 2 ^ (13 + k)" by (simp add: power_add)
    then have "52 + s < 13 + k" by simp
    then have ks: "s < k" by simp
    let ?q = "if 2 ^ (s - 1) < M mod 2 ^ s \<or> (M mod 2 ^ s = 2 ^ (s - 1) \<and> odd (M div 2 ^ s))
          then M div 2 ^ s + 1 else M div 2 ^ s"
    have r: "round_to_double M (exponent r) = \<lparr>mantissa = ?q, exponent = exponent r + int s\<rparr>"
      using long by (simp add: round_to_double_def Let_def s_def)
    from s13 have "(2::nat) ^ (s - 1) \<le> 2 ^ 12" by (intro power_increasing) simp_all
    then have h: "(2::nat) ^ (s - 1) < 6500" by simp
    from ks have pk: "(2::nat) ^ k = 2 ^ (k - s) * 2 ^ s"
      by (simp add: power_add [symmetric])
    from Mk h have "M + 2 ^ (s - 1) < 6500 * 2 ^ (k - s) * 2 ^ s"
      by (simp add: pk mult.assoc)
    then have "(M + 2 ^ (s - 1)) div 2 ^ s < 6500 * 2 ^ (k - s)"
      by (simp add: less_mult_imp_div_less)
    with rounded_mantissa_le [OF s0, of M] have "?q < 6500 * 2 ^ (k - s)" by linarith
    then have "?q div 2 ^ (k - s) < 6500" by (simp add: less_mult_imp_div_less)
    moreover from ks e have "\<not> 0 \<le> exponent r + int s" "nat (- (exponent r + int s)) = k - s"
      by simp_all
    ultimately show ?thesis
      unfolding M_def [symmetric] r by (simp add: Math_floor_def)
  qed
qed

lemma backoff_delay_bounds:
  assumes "is_double r" and "less_than_one r"
  shows "MIN_REQUEST_DELAY \<le> backoff_delay r \<and> backoff_delay r < MAX_REQUEST_DELAY"
  using Math_floor_product_less [OF assms]
  by (simp add: backoff_delay_def MIN_REQUEST_DELAY_def MAX_REQUEST_DELAY_def)


text \<open>
  The product rounds: the exact product of this double with 6500 is \<open>245 - 20 / 2 ^ 52\<close>,
  the double product is 245.
\<close>

lemma backoff_delay_rounds_up:
  "backoff_delay \<lparr>mantissa = 169751062877811, exponent = - 52\<rparr> = 745"
  by (simp add: backoff_delay_def round_to_double_def Math_floor_def bit_length.simps
      MIN_REQUEST_DELAY_def MAX_REQUEST_DELAY_def Let_def)


text \<open>Every delay a settled call has slept for lies in the window.\<close>

lemma makeRequest_delays_in_range:
  assumes rnd: "\<forall>k. is_double (random e k) \<and> less_than_one (random e k)"
    and run: "makeRequest e m u opts b w = Some y"
  shows "\<exists>ds. delays (snd y) = delays w @ ds \<and>
           (\<forall>d\<in>set ds. MIN_REQUEST_DELAY \<le> d \<and> d < MAX_REQUEST_DELAY)"
proof -
  have "(\<forall>k. is_double (random e k) \<and> less_than_one (random e k)) \<longrightarrow>
        (\<exists>ds. delays (snd y) = delays w @ ds \<and>
           (\<forall>d\<in>set ds. MIN_REQUEST_DELAY \<le> d \<and> d < MAX_REQUEST_DELAY))"
  proof (rule makeRequest.raw_induct
      [where P = "\<lambda>e m u opts b w y.
        (\<forall>k. is_double (random e k) \<and> less_than_one (random e k)) \<longrightarrow>
        (\<exists>ds. delays (snd y) = delays w @ ds \<and>
           (\<forall>d\<in>set ds. MIN_REQUEST_DELAY \<le> d \<and> d < MAX_REQUEST_DELAY))", OF _ run],
      goal_cases)
    case (1 f e1 m1 u1 o1 b1 w1 y1)
    show ?case
    proof
      assume rnd1: "\<forall>k. is_double (random e1 k) \<and> less_than_one (random e1 k)"
      show "\<exists>ds. delays (snd y1) = delays w1 @ ds \<and>
           (\<forall>d\<in>set ds. MIN_REQUEST_DELAY \<le> d \<and> d < MAX_REQUEST_DELAY)"
      proof (cases "prepare_request e1 m1 u1 o1 b1")
        case (Inl err)
        with "1"(2) show ?thesis by auto
      next
        case (Inr req)
        show ?thesis
        proof (cases "fetch e1 (length (calls w1)) req")
          case (Rejected msg)
          with Inr "1"(2) show ?thesis by (auto simp: Let_def)
        next
          case (Resolved resp)
          show ?thesis
          proof (cases "status resp = 429")
            case False
            with Inr Resolved "1"(2) show ?thesis
              by (auto simp: Let_def split: if_splits sum.splits)
          next
            case True
            let ?d = "backoff_delay (random e1 (length (delays w1)))"
            let ?w = "w1\<lparr>calls := calls w1 @ [req], delays := delays w1 @ [?d]\<rparr>"
            from Inr Resolved True "1"(2) have "f e1 m1 u1 o1 b1 ?w = Some y1"
              by (simp add: Let_def)
            from "1"(1)[OF this] rnd1 obtain ds where
              ds: "delays (snd y1) = delays ?w @ ds"
              "\<forall>d\<in>set ds. MIN_REQUEST_DELAY \<le> d \<and> d < MAX_REQUEST_DELAY"
              by blast
            from rnd1 have "MIN_REQUEST_DELAY \<le> ?d \<and> ?d < MAX_REQUEST_DELAY"
              by (intro backoff_delay_bounds) simp_all
            with ds have "delays (snd y1) = delays w1 @ (?d # ds) \<and>
              (\<forall>d\<in>set (?d # ds). MIN_REQUEST_DELAY \<le> d \<and> d < MAX_REQUEST_DELAY)"
              by simp
            then show ?thesis by blast
          qed
        qed
      qed
    qed
  qed
  with rnd show ?thesis by blast
qed



subsection \<open>Building the request\<close>

lemma serialize_params_not_Nil: "ps \<noteq> [] \<Longrightarrow> serialize_params ps \<noteq> []"
  by (cases ps) (auto simp: serialize_params_def join_def)

text \<open>\<open>Object_entries\<close> rearranges, and leaves a list without array-index keys as it is.\<close>

lemma set_Object_entries: "set (Object_entries ps) = set ps"
  by (auto simp: Object_entries_def)

lemma Object_entries_Nil_iff: "Object_entries ps = [] \<longleftrightarrow> ps = []"
  using set_Object_entries [of ps] by (metis set_empty)

lemma Object_entries_no_index:
  assumes "\<forall>kv\<in>set ps. \<not> is_array_index (fst kv)"
  shows "Object_entries ps = ps"
proof -
  from assms have "filter (\<lambda>kv. is_array_index (fst kv)) ps = []"
    by (simp add: filter_empty_conv)
  moreover from assms have "filter (\<lambda>kv. \<not> is_array_index (fst kv)) ps = ps"
    by (simp add: filter_id_conv)
  ultimately show ?thesis by (simp add: Object_entries_def)
qed

lemma distinct_Object_entries:
  assumes "distinct (map fst ps)"
  shows "distinct (map fst (Object_entries ps))"
proof -
  let ?A = "filter (\<lambda>kv. is_array_index (fst kv)) ps"
  let ?B = "filter (\<lambda>kv. \<not> is_array_index (fst kv)) ps"
  from assms have "distinct (map fst ?A)" and b: "distinct (map fst ?B)"
    by (simp_all add: distinct_map_filter)
  then have "distinct ?A \<and> inj_on fst (set ?A)" by (simp add: distinct_map)
  then have "distinct (map fst (sort_key (\<lambda>kv. index_value (fst kv)) ?A))"
    by (simp add: distinct_map)
  moreover have "fst ` set (sort_key (\<lambda>kv. index_value (fst kv)) ?A) \<inter> fst ` set ?B = {}"
    by auto
  ultimately show ?thesis using b by (simp add: Object_entries_def)
qed

text \<open>What the loop over the entries leaves in the URL.\<close>

lemma append_query_Some:
  assumes "append_query u es = Some u'"
  shows "\<exists>ps. list_all2 (\<lambda>kv ks. fst ks = fst kv \<and> String_of (snd kv) = Some (snd ks)) es ps
           \<and> searchParams u' = searchParams u @ ps
           \<and> prefix_part u' = prefix_part u \<and> fragment_part u' = fragment_part u
           \<and> query_part u' = (if es = [] then query_part u
                               else Some (serialize_params (searchParams u @ ps)))"
  using assms
proof (induction es arbitrary: u)
  case Nil
  then show ?case by simp
next
  case (Cons kv es)
  obtain k v where kv: "kv = (k, v)" by (cases kv)
  from Cons.prems kv obtain s where s: "String_of v = Some s"
    and rest: "append_query (searchParams_append u (k, s)) es = Some u'"
    by (auto split: option.splits)
  let ?u = "searchParams_append u (k, s)"
  from Cons.IH [OF rest] obtain ps where ps:
    "list_all2 (\<lambda>kv ks. fst ks = fst kv \<and> String_of (snd kv) = Some (snd ks)) es ps"
    "searchParams u' = searchParams ?u @ ps"
    "prefix_part u' = prefix_part ?u" "fragment_part u' = fragment_part ?u"
    "query_part u' = (if es = [] then query_part ?u
                       else Some (serialize_params (searchParams ?u @ ps)))"
    by blast
  have u: "searchParams ?u = searchParams u @ [(k, s)]" "prefix_part ?u = prefix_part u"
    "fragment_part ?u = fragment_part u"
    "query_part ?u = Some (serialize_params (searchParams u @ [(k, s)]))"
    by (simp_all add: searchParams_append_def Let_def serialize_params_not_Nil)
  from ps(1) have "es = [] \<Longrightarrow> ps = []" by simp
  with ps u kv s have
    "list_all2 (\<lambda>kv ks. fst ks = fst kv \<and> String_of (snd kv) = Some (snd ks)) (kv # es) ((k, s) # ps)
     \<and> searchParams u' = searchParams u @ ((k, s) # ps)
     \<and> prefix_part u' = prefix_part u \<and> fragment_part u' = fragment_part u
     \<and> query_part u' = (if kv # es = [] then query_part u
                         else Some (serialize_params (searchParams u @ ((k, s) # ps))))"
    by auto
  then show ?case by blast
qed

lemma append_query_None_iff:
  "append_query u es = None \<longleftrightarrow> (\<exists>kv\<in>set es. String_of (snd kv) = None)"
  by (induction u es rule: append_query.induct) (auto split: option.splits)

lemma list_all2_paramD:
  assumes "list_all2 (\<lambda>kv ks. fst ks = fst kv \<and> String_of (snd kv) = Some (snd ks)) es ps"
    and "(k, v) \<in> set es" and "String_of v = Some s"
  shows "(k, s) \<in> set ps"
  using assms by (induction rule: list_all2_induct) (auto simp: prod_eq_iff)

lemma element_strings_Some:
  "element_strings xs = Some ss \<Longrightarrow>
     list_all2 (\<lambda>x s. (if x = JUndefined \<or> x = JNull then Some [] else String_of x) = Some s)
       xs ss"
proof (induction xs arbitrary: ss)
  case Nil
  then show ?case by simp
next
  case (Cons x xs)
  from Cons.prems obtain s ss' where
    s: "(if x = JUndefined \<or> x = JNull then Some [] else String_of x) = Some s"
    and ss': "element_strings xs = Some ss'" and ss: "ss = s # ss'"
    by (auto split: option.splits)
  from Cons.IH [OF ss'] s ss show ?case by simp
qed

lemma truthy_stringify: "truthy d \<Longrightarrow> \<exists>s. JSON_stringify d = Some s"
  by (cases d) simp_all

text \<open>The request that is built, in both modes.\<close>

lemma prepare_request_built:
  assumes "URL_parse e (baseUri @ uri) = Some u" and "query options = Some q"
    and "\<forall>kv\<in>set q. String_of (snd kv) \<noteq> None"
  shows "\<exists>req ps. prepare_request e method uri options baseUri = Inr req
     \<and> list_all2 (\<lambda>kv ks. fst ks = fst kv \<and> String_of (snd kv) = Some (snd ks))
          (Object_entries q) ps
     \<and> url req = prefix_part u
          @ (if q = [] then (case query_part u of None \<Rightarrow> [] | Some s \<Rightarrow> ''?'' @ s)
             else ''?'' @ serialize_params (searchParams u @ ps))
          @ (case fragment_part u of None \<Rightarrow> [] | Some f \<Rightarrow> ''#'' @ f)
     \<and> init_method req = toUpperCase (replace_json method)
     \<and> init_headers req = (if includes_str method ''json'' then headers options else None)
     \<and> init_body req = (if includes_str method ''json'' \<and> truthy (data options)
                         then JSON_stringify (data options) else None)"
proof -
  from assms(3) have "append_query u (Object_entries q) \<noteq> None"
    by (simp add: append_query_None_iff set_Object_entries)
  then obtain u' where u': "append_query u (Object_entries q) = Some u'" by auto
  from append_query_Some [OF this] obtain ps where ps:
    "list_all2 (\<lambda>kv ks. fst ks = fst kv \<and> String_of (snd kv) = Some (snd ks)) (Object_entries q) ps"
    "searchParams u' = searchParams u @ ps"
    "prefix_part u' = prefix_part u" "fragment_part u' = fragment_part u"
    "query_part u' = (if Object_entries q = [] then query_part u
                               else Some (serialize_params (searchParams u @ ps)))"
    by blast
  have "URL_toString u' = prefix_part u
          @ (if q = [] then (case query_part u of None \<Rightarrow> [] | Some s \<Rightarrow> ''?'' @ s)
             else ''?'' @ serialize_params (searchParams u @ ps))
          @ (case fragment_part u of None \<Rightarrow> [] | Some f \<Rightarrow> ''#'' @ f)"
    using ps by (simp add: URL_toString_def Object_entries_Nil_iff)
  with assms(1,2) u' ps(1) show ?thesis
    by (auto simp: prepare_request_def Let_def)
qed

lemma prepare_request_unconvertible:
  assumes "URL_parse e (baseUri @ uri) = Some u" and "query options = Some q"
    and "\<exists>kv\<in>set q. String_of (snd kv) = None"
  shows "prepare_request e method uri options baseUri
           = Inl (TypeError ''Cannot convert object to primitive value'')"
proof -
  from assms(3) have "append_query u (Object_entries q) = None"
    by (simp add: append_query_None_iff set_Object_entries)
  with assms(1,2) show ?thesis
    by (simp add: prepare_request_def Let_def)
qed


text \<open>
  C7 as stated has the entries appended in insertion order and every object stringified
  as the placeholder. The query \<^verbatim>\<open>{b: 'x', 1: 'y'}\<close> is appended as \<^verbatim>\<open>1=y&b=x\<close>, the
  array-index key first; and for the query \<^verbatim>\<open>{o: {toString: 1}}\<close> \<^verbatim>\<open>String\<close> throws,
  so that no request is built.
\<close>

theorem form_mode_index_keys_and_own_toString:
  "map_sum id url
     (prepare_request (mock_env [] createRateLimitResponse) ''get'' ''/test''
        \<lparr>headers = None, data = JUndefined,
         query = Some [(''b'', JStr ''x''), (''1'', JStr ''y'')]\<rparr> ''https://api.trello.com'')
     = Inr ''https://api.trello.com/test?1=y&b=x''
   \<and> map_sum id url
     (prepare_request (mock_env [] createRateLimitResponse) ''get'' ''/test''
        \<lparr>headers = None, data = JUndefined,
         query = Some [(''b'', JStr ''x''), (''1'', JStr ''y'')]\<rparr> ''https://api.trello.com'')
     \<noteq> Inr ''https://api.trello.com/test?b=x&1=y''
   \<and> prepare_request (mock_env [] createRateLimitResponse) ''get'' ''/test''
        \<lparr>headers = None, data = JUndefined,
         query = Some [(''o'', JObj [(''toString'', JNum 1)])]\<rparr> ''https://api.trello.com''
     = Inl (TypeError ''Cannot convert object to primitive value'')"
  by code_simp

text \<open>
  C7, amended: in form mode (a method without \<^verbatim>\<open>json\<close> in it), when every value of the
  query can be converted by \<^verbatim>\<open>String\<close>, every entry of the query is appended to the
  URL's search parameters, after those the URL already has, with its value stringified,
  in the order of \<^verbatim>\<open>Object.entries\<close>: the array-index keys first, ascending, then the
  other keys in insertion order, which is the insertion order of the whole query when it
  has no array-index key. The URL's query becomes the URL-encoded serialisation of that
  list, and the request has no body. An array is stringified as its elements joined by
  commas (\<^verbatim>\<open>null\<close> and \<^verbatim>\<open>undefined\<close> elements as the empty string), an object as
  \<^verbatim>\<open>[object Object]\<close>, and \<^verbatim>\<open>null\<close> as \<^verbatim>\<open>null\<close>. When some value cannot be converted,
  as an object with an own \<^verbatim>\<open>toString\<close> property cannot, the call is rejected with a
  \<^verbatim>\<open>TypeError\<close> and no request is built.
\<close>

theorem form_mode_query_serialization:
  assumes "\<not> includes_str method ''json''"
    and "URL_parse e (baseUri @ uri) = Some u"
    and "query options = Some q"
  shows "((\<forall>kv\<in>set q. String_of (snd kv) \<noteq> None) \<longrightarrow>
           (\<exists>req ps. prepare_request e method uri options baseUri = Inr req
              \<and> list_all2 (\<lambda>kv ks. fst ks = fst kv \<and> String_of (snd kv) = Some (snd ks))
                   (sort_key (\<lambda>kv. index_value (fst kv))
                      (filter (\<lambda>kv. is_array_index (fst kv)) q)
                    @ filter (\<lambda>kv. \<not> is_array_index (fst kv)) q) ps
              \<and> url req = prefix_part u
                   @ (if q = [] then (case query_part u of None \<Rightarrow> [] | Some s \<Rightarrow> ''?'' @ s)
                      else ''?'' @ join ''&'' (map (\<lambda>(k, v). urlencode k @ ''='' @ urlencode v)
                                               (searchParams u @ ps)))
                   @ (case fragment_part u of None \<Rightarrow> [] | Some f \<Rightarrow> ''#'' @ f)
              \<and> init_body req = None
              \<and> (\<forall>k. (k, JNull) \<in> set q \<longrightarrow> (k, ''null'') \<in> set ps)
              \<and> (\<forall>k ps'. (k, JObj ps') \<in> set q \<longrightarrow> (k, ''[object Object]'') \<in> set ps)
              \<and> (\<forall>k xs. (k, JArr xs) \<in> set q \<longrightarrow>
                    (\<exists>ss. list_all2
                            (\<lambda>x s. (if x = JUndefined \<or> x = JNull then Some []
                                     else String_of x) = Some s) xs ss
                          \<and> (k, join '','' ss) \<in> set ps))))
       \<and> ((\<exists>kv\<in>set q. String_of (snd kv) = None) \<longrightarrow>
            prepare_request e method uri options baseUri
              = Inl (TypeError ''Cannot convert object to primitive value''))
       \<and> (\<forall>k ps'. (k, JObj ps') \<in> set q \<and> ''toString'' \<in> fst ` set ps' \<longrightarrow>
            prepare_request e method uri options baseUri
              = Inl (TypeError ''Cannot convert object to primitive value''))
       \<and> ((\<forall>kv\<in>set q. \<not> is_array_index (fst kv)) \<longrightarrow>
            sort_key (\<lambda>kv. index_value (fst kv)) (filter (\<lambda>kv. is_array_index (fst kv)) q)
            @ filter (\<lambda>kv. \<not> is_array_index (fst kv)) q = q)"
proof (intro conjI impI allI)
  assume ok: "\<forall>kv\<in>set q. String_of (snd kv) \<noteq> None"
  from prepare_request_built [OF assms(2,3) ok, of "method"] obtain req ps where
    req: "prepare_request e method uri options baseUri = Inr req"
    and ps: "list_all2 (\<lambda>kv ks. fst ks = fst kv \<and> String_of (snd kv) = Some (snd ks))
          (Object_entries q) ps"
    and u: "url req = prefix_part u
          @ (if q = [] then (case query_part u of None \<Rightarrow> [] | Some s \<Rightarrow> ''?'' @ s)
             else ''?'' @ serialize_params (searchParams u @ ps))
          @ (case fragment_part u of None \<Rightarrow> [] | Some f \<Rightarrow> ''#'' @ f)"
    and b: "init_body req = (if includes_str method ''json'' \<and> truthy (data options)
                         then JSON_stringify (data options) else None)"
    by blast
  have null: "(k, ''null'') \<in> set ps" if "(k, JNull) \<in> set q" for k
    using ps that by (intro list_all2_paramD [OF ps, of k JNull]) (simp_all add: set_Object_entries)
  have obj: "(k, ''[object Object]'') \<in> set ps" if "(k, JObj ps') \<in> set q" for k ps'
  proof -
    from ok that have "String_of (snd (k, JObj ps')) \<noteq> None" by (rule bspec)
    then have "String_of (JObj ps') = Some ''[object Object]''" by (simp split: if_splits)
    with that show ?thesis
      by (intro list_all2_paramD [OF ps, of k "JObj ps'"]) (simp_all add: set_Object_entries)
  qed
  have arr: "\<exists>ss. list_all2 (\<lambda>x s. (if x = JUndefined \<or> x = JNull then Some []
                                     else String_of x) = Some s) xs ss
                \<and> (k, join '','' ss) \<in> set ps" if "(k, JArr xs) \<in> set q" for k xs
  proof -
    from ok that have "String_of (snd (k, JArr xs)) \<noteq> None" by (rule bspec)
    then obtain ss where ss: "element_strings xs = Some ss" by auto
    then have "String_of (JArr xs) = Some (join '','' ss)" by simp
    with that have "(k, join '','' ss) \<in> set ps"
      by (intro list_all2_paramD [OF ps, of k "JArr xs"]) (simp_all add: set_Object_entries)
    with element_strings_Some [OF ss] show ?thesis by blast
  qed
  from req ps u b assms(1) null obj arr
  show "\<exists>req ps. prepare_request e method uri options baseUri = Inr req
              \<and> list_all2 (\<lambda>kv ks. fst ks = fst kv \<and> String_of (snd kv) = Some (snd ks))
                   (sort_key (\<lambda>kv. index_value (fst kv))
                      (filter (\<lambda>kv. is_array_index (fst kv)) q)
                    @ filter (\<lambda>kv. \<not> is_array_index (fst kv)) q) ps
              \<and> url req = prefix_part u
                   @ (if q = [] then (case query_part u of None \<Rightarrow> [] | Some s \<Rightarrow> ''?'' @ s)
                      else ''?'' @ join ''&'' (map (\<lambda>(k, v). urlencode k @ ''='' @ urlencode v)
                                               (searchParams u @ ps)))
                   @ (case fragment_part u of None \<Rightarrow> [] | Some f \<Rightarrow> ''#'' @ f)
              \<and> init_body req = None
              \<and> (\<forall>k. (k, JNull) \<in> set q \<longrightarrow> (k, ''null'') \<in> set ps)
              \<and> (\<forall>k ps'. (k, JObj ps') \<in> set q \<longrightarrow> (k, ''[object Object]'') \<in> set ps)
              \<and> (\<forall>k xs. (k, JArr xs) \<in> set q \<longrightarrow>
                    (\<exists>ss. list_all2
                            (\<lambda>x s. (if x = JUndefined \<or> x = JNull then Some []
                                     else String_of x) = Some s) xs ss
                          \<and> (k, join '','' ss) \<in> set ps))"
    unfolding Object_entries_def serialize_params_def by (intro exI [of _ req] exI [of _ ps]) simp
next
  assume "\<exists>kv\<in>set q. String_of (snd kv) = None"
  with assms(2,3) show "prepare_request e method uri options baseUri
              = Inl (TypeError ''Cannot convert object to primitive value'')"
    by (rule prepare_request_unconvertible)
next
  fix k ps'
  assume "(k, JObj ps') \<in> set q \<and> ''toString'' \<in> fst ` set ps'"
  then have "(k, JObj ps') \<in> set q" and "String_of (snd (k, JObj ps')) = None" by simp_all
  then have "\<exists>kv\<in>set q. String_of (snd kv) = None" by (rule bexI [rotated])
  with assms(2,3) show "prepare_request e method uri options baseUri
              = Inl (TypeError ''Cannot convert object to primitive value'')"
    by (rule prepare_request_unconvertible)
next
  assume "\<forall>kv\<in>set q. \<not> is_array_index (fst kv)"
  then show "sort_key (\<lambda>kv. index_value (fst kv)) (filter (\<lambda>kv. is_array_index (fst kv)) q)
            @ filter (\<lambda>kv. \<not> is_array_index (fst kv)) q = q"
    using Object_entries_no_index [of q] by (simp add: Object_entries_def)
qed

text \<open>
  The query of P4, followed by the structured values of the test "should correctly
  serialize complex query parameters".
\<close>

theorem form_mode_query_serialization_witness:
  "\<not> includes_str ''get'' ''json''
   \<and> URL_parse (mock_env [] createRateLimitResponse) (''https://api.trello.com'' @ ''/1/cards'')
       = plain_URL ''https://api.trello.com/1/cards''
   \<and> (\<exists>req. prepare_request (mock_env [] createRateLimitResponse) ''get'' ''/1/cards''
               complex_query_options ''https://api.trello.com'' = Inr req
        \<and> url req = ''https://api.trello.com/1/cards?key=k&token=t&name=Card+Title&array=1%2C2%2C3&object=%5Bobject+Object%5D&nullValue=null''
        \<and> init_body req = None)"
proof -
  let ?e = "mock_env [] createRateLimitResponse"
  let ?u = "\<lparr>prefix_part = ''https://api.trello.com/1/cards'', searchParams = [],
             query_part = None, fragment_part = None\<rparr>"
  let ?q = "[(''key'', JStr ''k''), (''token'', JStr ''t''), (''name'', JStr ''Card Title''),
             (''array'', JArr [JNum 1, JNum 2, JNum 3]),
             (''object'', JObj [(''a'', JNum 1), (''b'', JNum 2)]),
             (''nullValue'', JNull)]"
  have m: "\<not> includes_str ''get'' ''json''" by simp
  have p: "URL_parse ?e (''https://api.trello.com'' @ ''/1/cards'') = Some ?u"
    by (simp add: mock_env_def plain_URL_def)
  have q: "query complex_query_options = Some ?q"
    by (simp add: complex_query_options_def)
  have ok: "\<forall>kv\<in>set ?q. String_of (snd kv) \<noteq> None" by simp
  have run: "prepare_request ?e ''get'' ''/1/cards'' complex_query_options ''https://api.trello.com''
    = Inr \<lparr>url = ''https://api.trello.com/1/cards?key=k&token=t&name=Card+Title&array=1%2C2%2C3&object=%5Bobject+Object%5D&nullValue=null'',
           init_method = ''GET'', init_headers = None, init_body = None\<rparr>"
    by code_simp
  from form_mode_query_serialization [OF m p q] ok obtain req where
    "prepare_request ?e ''get'' ''/1/cards'' complex_query_options ''https://api.trello.com'' = Inr req"
    "init_body req = None"
    by blast
  with run m p show ?thesis
    by (auto simp: plain_URL_def)
qed

text \<open>
  C9 as stated gives every JSON-mode request with data the body
  \<^verbatim>\<open>JSON.stringify(data)\<close> and the header \<^verbatim>\<open>Content-Type: application/json\<close>. With
  the data \<^verbatim>\<open>0\<close> and the headers \<^verbatim>\<open>{'Content-Type': 'text/plain'}\<close> the request has
  no body, and its content type is the one it was given.
\<close>

theorem json_mode_falsy_data_has_no_body:
  "map_sum id init_body
     (prepare_request (mock_env [] createRateLimitResponse) ''postjson'' ''/test''
        (json_options\<lparr>headers := Some [(''Content-Type'', ''text/plain'')], data := JNum 0\<rparr>)
        ''https://api.trello.com'')
     \<noteq> Inr (JSON_stringify (JNum 0))
   \<and> map_sum id init_headers
     (prepare_request (mock_env [] createRateLimitResponse) ''postjson'' ''/test''
        (json_options\<lparr>headers := Some [(''Content-Type'', ''text/plain'')], data := JNum 0\<rparr>)
        ''https://api.trello.com'')
     \<noteq> Inr (Some [(''Content-Type'', ''application/json'')])"
  by code_simp

text \<open>
  C9, amended: when the URL parses, the options have a query and every value of the query
  can be converted by \<^verbatim>\<open>String\<close>, the request is built and every entry of the query is
  appended to the URL's search parameters. In JSON mode (a method with \<^verbatim>\<open>json\<close> in it)
  the request carries the headers of the options unchanged, so
  \<^verbatim>\<open>Content-Type: application/json\<close> when they hold it; its body is
  \<^verbatim>\<open>JSON.stringify(data)\<close> when the data is truthy, and it has no body when the data is
  absent or falsy. A form-mode request carries neither headers nor body. When some value
  of the query cannot be converted, the call is rejected with a \<^verbatim>\<open>TypeError\<close> in either
  mode.
\<close>

theorem json_mode_request:
  assumes "URL_parse e (baseUri @ uri) = Some u"
    and "query options = Some q"
  shows "((\<forall>kv\<in>set q. String_of (snd kv) \<noteq> None) \<longrightarrow>
           (\<exists>req ps. prepare_request e method uri options baseUri = Inr req
              \<and> list_all2 (\<lambda>kv ks. fst ks = fst kv \<and> String_of (snd kv) = Some (snd ks))
                   (Object_entries q) ps
              \<and> url req = prefix_part u
                   @ (if q = [] then (case query_part u of None \<Rightarrow> [] | Some s \<Rightarrow> ''?'' @ s)
                      else ''?'' @ serialize_params (searchParams u @ ps))
                   @ (case fragment_part u of None \<Rightarrow> [] | Some f \<Rightarrow> ''#'' @ f)
              \<and> (includes_str method ''json'' \<longrightarrow>
                   init_headers req = headers options
                   \<and> (truthy (data options) \<longrightarrow>
                         init_body req = JSON_stringify (data options) \<and> init_body req \<noteq> None)
                   \<and> (\<not> truthy (data options) \<longrightarrow> init_body req = None))
              \<and> (\<not> includes_str method ''json'' \<longrightarrow>
                   init_headers req = None \<and> init_body req = None)))
       \<and> ((\<exists>kv\<in>set q. String_of (snd kv) = None) \<longrightarrow>
            prepare_request e method uri options baseUri
              = Inl (TypeError ''Cannot convert object to primitive value''))"
proof (intro conjI impI)
  assume ok: "\<forall>kv\<in>set q. String_of (snd kv) \<noteq> None"
  from prepare_request_built [OF assms ok, of "method"] obtain req ps where
    req: "prepare_request e method uri options baseUri = Inr req"
    and ps: "list_all2 (\<lambda>kv ks. fst ks = fst kv \<and> String_of (snd kv) = Some (snd ks))
          (Object_entries q) ps"
    and u: "url req = prefix_part u
          @ (if q = [] then (case query_part u of None \<Rightarrow> [] | Some s \<Rightarrow> ''?'' @ s)
             else ''?'' @ serialize_params (searchParams u @ ps))
          @ (case fragment_part u of None \<Rightarrow> [] | Some f \<Rightarrow> ''#'' @ f)"
    and h: "init_headers req = (if includes_str method ''json'' then headers options else None)"
    and b: "init_body req = (if includes_str method ''json'' \<and> truthy (data options)
                         then JSON_stringify (data options) else None)"
    by blast
  have "truthy (data options) \<longrightarrow> JSON_stringify (data options) \<noteq> None"
    using truthy_stringify by fastforce
  with req ps u h b
  show "\<exists>req ps. prepare_request e method uri options baseUri = Inr req
              \<and> list_all2 (\<lambda>kv ks. fst ks = fst kv \<and> String_of (snd kv) = Some (snd ks))
                   (Object_entries q) ps
              \<and> url req = prefix_part u
                   @ (if q = [] then (case query_part u of None \<Rightarrow> [] | Some s \<Rightarrow> ''?'' @ s)
                      else ''?'' @ serialize_params (searchParams u @ ps))
                   @ (case fragment_part u of None \<Rightarrow> [] | Some f \<Rightarrow> ''#'' @ f)
              \<and> (includes_str method ''json'' \<longrightarrow>
                   init_headers req = headers options
                   \<and> (truthy (data options) \<longrightarrow>
                         init_body req = JSON_stringify (data options) \<and> init_body req \<noteq> None)
                   \<and> (\<not> truthy (data options) \<longrightarrow> init_body req = None))
              \<and> (\<not> includes_str method ''json'' \<longrightarrow>
                   init_headers req = None \<and> init_body req = None)"
    by (intro exI [of _ req] exI [of _ ps]) simp
next
  assume "\<exists>kv\<in>set q. String_of (snd kv) = None"
  with assms show "prepare_request e method uri options baseUri
              = Inl (TypeError ''Cannot convert object to primitive value'')"
    by (rule prepare_request_unconvertible)
qed

text \<open>The call of P5, and the same options in form mode.\<close>

theorem json_mode_request_witness:
  "URL_parse (mock_env [] createRateLimitResponse) (''https://api.trello.com'' @ ''/test'')
       = plain_URL ''https://api.trello.com/test''
   \<and> includes_str ''postjson'' ''json'' \<and> truthy (data json_options)
   \<and> (\<exists>req. prepare_request (mock_env [] createRateLimitResponse) ''postjson'' ''/test''
               json_options ''https://api.trello.com'' = Inr req
        \<and> url req = ''https://api.trello.com/test?key=test-key&token=test-token''
        \<and> init_headers req = Some [(''Content-Type'', ''application/json'')]
        \<and> init_body req = Some [CHR ''{'', CHR 0x22, CHR ''a'', CHR 0x22, CHR '':'', CHR ''1'', CHR ''}''])
   \<and> \<not> includes_str ''get'' ''json''
   \<and> (\<exists>req. prepare_request (mock_env [] createRateLimitResponse) ''get'' ''/test''
               json_options ''https://api.trello.com'' = Inr req
        \<and> init_headers req = None \<and> init_body req = None)"
proof -
  let ?e = "mock_env [] createRateLimitResponse"
  let ?u = "\<lparr>prefix_part = ''https://api.trello.com/test'', searchParams = [],
             query_part = None, fragment_part = None\<rparr>"
  let ?q = "[(''key'', JStr ''test-key''), (''token'', JStr ''test-token'')]"
  have p: "URL_parse ?e (''https://api.trello.com'' @ ''/test'') = Some ?u"
    by (simp add: mock_env_def plain_URL_def)
  have q: "query json_options = Some ?q"
    by (simp add: json_options_def)
  have ok: "\<forall>kv\<in>set ?q. String_of (snd kv) \<noteq> None" by simp
  have m: "includes_str ''postjson'' ''json''" "\<not> includes_str ''get'' ''json''"
    by simp_all
  have t: "truthy (data json_options)"
    by (simp add: json_options_def)
  have h: "headers json_options = Some [(''Content-Type'', ''application/json'')]"
    by (simp add: json_options_def)
  have b: "JSON_stringify (data json_options)
             = Some [CHR ''{'', CHR 0x22, CHR ''a'', CHR 0x22, CHR '':'', CHR ''1'', CHR ''}'']"
    by code_simp
  have s: "map_sum id url (prepare_request ?e ''postjson'' ''/test'' json_options ''https://api.trello.com'')
             = Inr ''https://api.trello.com/test?key=test-key&token=test-token''"
    by code_simp
  from json_mode_request [OF p q, of "''postjson''"] ok m t h b obtain req where
    r1: "prepare_request ?e ''postjson'' ''/test'' json_options ''https://api.trello.com'' = Inr req"
    "init_headers req = Some [(''Content-Type'', ''application/json'')]"
    "init_body req = Some [CHR ''{'', CHR 0x22, CHR ''a'', CHR 0x22, CHR '':'', CHR ''1'', CHR ''}'']"
    by auto
  from json_mode_request [OF p q, of "''get''"] ok m obtain req' where
    r2: "prepare_request ?e ''get'' ''/test'' json_options ''https://api.trello.com'' = Inr req'"
    "init_headers req' = None" "init_body req' = None"
    by auto
  from r1 s have "url req = ''https://api.trello.com/test?key=test-key&token=test-token''"
    by simp
  with r1 r2 p m t show ?thesis
    by (auto simp: plain_URL_def)
qed

section \<open>Properties of the client\<close>

subsection \<open>Validation\<close>

text \<open>
  A request method that is not a string, and options that are given and whose
  \<^verbatim>\<open>typeof\<close> is not \<^verbatim>\<open>object\<close>, are rejected with a \<^verbatim>\<open>TypeError\<close>; the world is
  untouched, so the transport has not been called.
\<close>

lemma Trello_makeRequest_non_string_method:
  assumes "typeof requestMethod \<noteq> ''string''"
  shows "Trello_makeRequest e this requestMethod path options w =
           Some (Inl (TypeError ''requestMethod should be a string''),
                 (if options = JUndefined then JObj [] else options), w)"
  using assms by (simp add: Trello_makeRequest_def Let_def)

lemma Trello_makeRequest_non_object_options:
  assumes "typeof requestMethod = ''string''"
    and "options \<noteq> JUndefined" and "typeof options \<noteq> ''object''"
  shows "Trello_makeRequest e this requestMethod path options w =
           Some (Inl (TypeError ''options should be an object''), options, w)"
  using assms by (simp add: Trello_makeRequest_def Let_def)

text \<open>
  \<^verbatim>\<open>typeof null\<close> is \<^verbatim>\<open>object\<close>: the options \<^verbatim>\<open>null\<close> pass the check, and with a
  method other than \<^verbatim>\<open>POST_JSON\<close> and \<^verbatim>\<open>PUT_JSON\<close> the call goes on to the transport.
\<close>

lemma Trello_makeRequest_null_options:
  "Trello_makeRequest (mock_env [createMockResponse (JObj []) None None] createRateLimitResponse)
     test_trello (JStr ''GET'') ''/1/members/me'' JNull world0
   = Some (Inr (JObj []), JNull,
        \<lparr>calls = [\<lparr>url = ''https://api.trello.com/1/members/me?key=key&token=token'',
                   init_method = ''GET'', init_headers = None, init_body = None\<rparr>],
         delays = []\<rparr>)"
  by code_simp

text \<open>
  On the six methods of the type \<^verbatim>\<open>RequestMethod\<close>, all lower case, the wire method is
  a base verb.
\<close>

lemma wire_method_of_RequestMethod:
  assumes "m \<in> {''post'', ''get'', ''put'', ''delete'', ''postjson'', ''putjson''}"
  shows "toUpperCase (replace_json m) \<in> {''GET'', ''POST'', ''PUT'', ''DELETE''}"
proof -
  have "toUpperCase (replace_json ''post'') = ''POST''" by code_simp
  moreover have "toUpperCase (replace_json ''get'') = ''GET''" by code_simp
  moreover have "toUpperCase (replace_json ''put'') = ''PUT''" by code_simp
  moreover have "toUpperCase (replace_json ''delete'') = ''DELETE''" by code_simp
  moreover have "toUpperCase (replace_json ''postjson'') = ''POST''" by code_simp
  moreover have "toUpperCase (replace_json ''putjson'') = ''PUT''" by code_simp
  ultimately show ?thesis using assms by auto
qed

text \<open>
  C3: a string that names no supported method is to be rejected before the transport is
  called. The client has no such check: for the method \<^verbatim>\<open>patch\<close> of the test "should
  throw error if a method passed is not one of these" the call resolves and the transport
  has received a \<^verbatim>\<open>PATCH\<close> request. The path is the test's with a leading slash, so
  that the URL is one the parser of the test doubles leaves as it is.
\<close>

theorem Trello_makeRequest_patch_reaches_transport:
  "Trello_makeRequest (mock_env [createMockResponse (JObj []) None None] createRateLimitResponse)
     test_trello (JStr ''patch'') ''/somePath'' JUndefined world0
   = Some (Inr (JObj []), JObj [],
        \<lparr>calls = [\<lparr>url = ''https://api.trello.com/somePath?key=key&token=token'',
                   init_method = ''PATCH'', init_headers = None, init_body = None\<rparr>],
         delays = []\<rparr>)"
  by code_simp

subsection \<open>The wire method of the JSON methods\<close>

text \<open>
  C4: the wire method is to be the base verb. For the client's \<^verbatim>\<open>POST_JSON\<close> the
  pattern \<^verbatim>\<open>/json$/\<close> does not match the upper-case suffix and
  \<^verbatim>\<open>includes('json')\<close> is false: the transport receives the method \<^verbatim>\<open>POST_JSON\<close>, in
  form mode, without headers and without body.
\<close>

theorem Trello_makeRequest_POST_JSON_wire_method:
  "Trello_makeRequest (mock_env [createMockResponse (JObj []) None None] createRateLimitResponse)
     test_trello (JStr ''POST_JSON'') ''/1/customFields''
     (JObj [(''data'', JObj [(''name'', JStr ''Priority'')])]) world0
   = Some (Inr (JObj []), JObj [],
        \<lparr>calls = [\<lparr>url = ''https://api.trello.com/1/customFields?data=%5Bobject+Object%5D&key=key&token=token'',
                   init_method = ''POST_JSON'', init_headers = None, init_body = None\<rparr>],
         delays = []\<rparr>)"
  by code_simp

subsection \<open>The caller's options object\<close>

lemma set_property_fresh:
  "fst kv \<notin> fst ` set ps \<Longrightarrow> set_property ps kv = ps @ [kv]"
  by (induction ps) auto

lemma spread_distinct:
  "distinct (map fst (acc @ ps)) \<Longrightarrow> spread acc ps = acc @ ps"
proof (induction ps arbitrary: acc)
  case Nil
  then show ?case by (simp add: spread_def)
next
  case (Cons kv ps)
  from Cons.prems have fresh: "fst kv \<notin> fst ` set acc" by auto
  from Cons.prems have "distinct (map fst ((acc @ [kv]) @ ps))" by simp
  then have "spread (acc @ [kv]) ps = (acc @ [kv]) @ ps" by (rule Cons.IH)
  with fresh show ?case by (simp add: spread_def set_property_fresh)
qed

lemma set_property_keeps:
  "(k, v) \<in> set ps \<Longrightarrow> k \<noteq> fst kv \<Longrightarrow> (k, v) \<in> set (set_property ps kv)"
  by (induction ps) auto

lemma spread_keeps:
  "(k, v) \<in> set acc \<Longrightarrow> k \<notin> fst ` set src \<Longrightarrow> (k, v) \<in> set (spread acc src)"
  unfolding spread_def
  by (induction src arbitrary: acc) (auto simp: set_property_keeps)

lemma merged_query_keeps_data:
  "(''data'', v) \<in> set ps \<Longrightarrow>
     (''data'', v) \<in> set (spread (Object_entries ps) (createQuery this))"
  by (rule spread_keeps) (auto simp: createQuery_def set_Object_entries)

lemma spread_Object_entries:
  "distinct (map fst ps) \<Longrightarrow> spread [] (Object_entries ps) = Object_entries ps"
  using spread_distinct [of "[]" "Object_entries ps"] by (simp add: distinct_Object_entries)

text \<open>
  C10: for an options object \<open>JObj ps\<close> (with distinct keys, as every object has) and the
  method \<^verbatim>\<open>POST_JSON\<close> or \<^verbatim>\<open>PUT_JSON\<close>, the call leaves the caller's object without
  its \<^verbatim>\<open>data\<close> property; the query handed to the transport core is the merge of the
  undeleted options with key and token, so a \<^verbatim>\<open>data\<close> entry of the options is still in
  it, and the request built from it carries \<^verbatim>\<open>data\<close>, stringified, among the search
  parameters of its URL. Should \<^verbatim>\<open>String\<close> throw on a value of that query, the call is
  rejected without a request, the \<^verbatim>\<open>data\<close> property deleted all the same. For every
  other request method a call that settles leaves the options object as it was.
\<close>

theorem Trello_makeRequest_deletes_data:
  assumes "distinct (map fst ps)"
  shows "(m = ''POST_JSON'' \<or> m = ''PUT_JSON'' \<longrightarrow>
           Trello_makeRequest e this (JStr m) path (JObj ps) w =
             map_option (\<lambda>(r, w'). (r, JObj (filter (\<lambda>kv. fst kv \<noteq> ''data'') ps), w'))
               (makeRequest e m path
                  \<lparr>headers = Some [(''Content-Type'', ''application/json'')],
                   data = (case map_of ps ''data'' of None \<Rightarrow> JUndefined | Some v \<Rightarrow> v),
                   query = Some (spread (Object_entries ps) (createQuery this))\<rparr>
                  (this_uri this) w)
           \<and> (\<forall>v. (''data'', v) \<in> set ps \<longrightarrow>
                  (''data'', v) \<in> set (spread (Object_entries ps) (createQuery this)))
           \<and> (\<forall>u v. URL_parse e (this_uri this @ path) = Some u \<and> (''data'', v) \<in> set ps
                  \<and> (\<forall>kv\<in>set (spread (Object_entries ps) (createQuery this)).
                        String_of (snd kv) \<noteq> None) \<longrightarrow>
                  (\<exists>req params s. prepare_request e m path
                      \<lparr>headers = Some [(''Content-Type'', ''application/json'')],
                       data = (case map_of ps ''data'' of None \<Rightarrow> JUndefined | Some v \<Rightarrow> v),
                       query = Some (spread (Object_entries ps) (createQuery this))\<rparr>
                      (this_uri this) = Inr req
                    \<and> url req = prefix_part u
                         @ ''?'' @ serialize_params (searchParams u @ params)
                         @ (case fragment_part u of None \<Rightarrow> [] | Some f \<Rightarrow> ''#'' @ f)
                    \<and> String_of v = Some s
                    \<and> (''data'', s) \<in> set params))
           \<and> ((\<exists>kv\<in>set (spread (Object_entries ps) (createQuery this)).
                        String_of (snd kv) = None)
                \<and> (\<exists>u. URL_parse e (this_uri this @ path) = Some u) \<longrightarrow>
                  Trello_makeRequest e this (JStr m) path (JObj ps) w =
                    Some (Inl (TypeError ''Cannot convert object to primitive value''),
                          JObj (filter (\<lambda>kv. fst kv \<noteq> ''data'') ps), w)))
       \<and> (requestMethod \<noteq> JStr ''POST_JSON'' \<and> requestMethod \<noteq> JStr ''PUT_JSON'' \<longrightarrow>
            (\<forall>res options' w'.
                Trello_makeRequest e this requestMethod path (JObj ps) w = Some (res, options', w')
                \<longrightarrow> options' = JObj ps))"
proof -
  let ?q = "spread (Object_entries ps) (createQuery this)"
  let ?o = "\<lparr>headers = Some [(''Content-Type'', ''application/json'')],
             data = (case map_of ps ''data'' of None \<Rightarrow> JUndefined | Some v \<Rightarrow> v),
             query = Some ?q\<rparr>"
  from assms have sp: "spread [] (Object_entries ps) = Object_entries ps"
    by (rule spread_Object_entries)
  have run: "Trello_makeRequest e this (JStr m) path (JObj ps) w =
             map_option (\<lambda>(r, w'). (r, JObj (filter (\<lambda>kv. fst kv \<noteq> ''data'') ps), w'))
               (makeRequest e m path ?o (this_uri this) w)"
    if "m = ''POST_JSON'' \<or> m = ''PUT_JSON''"
    using that sp by (auto simp: Trello_makeRequest_def Let_def the_string_def)
  have keeps: "(''data'', v) \<in> set ?q" if "(''data'', v) \<in> set ps" for v
    using that by (rule merged_query_keeps_data)
  have built: "\<exists>req params s. prepare_request e m path ?o (this_uri this) = Inr req
                    \<and> url req = prefix_part u
                         @ ''?'' @ serialize_params (searchParams u @ params)
                         @ (case fragment_part u of None \<Rightarrow> [] | Some f \<Rightarrow> ''#'' @ f)
                    \<and> String_of v = Some s
                    \<and> (''data'', s) \<in> set params"
    if u: "URL_parse e (this_uri this @ path) = Some u" and v: "(''data'', v) \<in> set ps"
      and ok: "\<forall>kv\<in>set ?q. String_of (snd kv) \<noteq> None" for u v
  proof -
    have q: "query ?o = Some ?q" by simp
    from v have mem: "(''data'', v) \<in> set ?q" by (rule keeps)
    then have ne: "?q \<noteq> []" by auto
    from ok mem have "String_of (snd (''data'', v)) \<noteq> None" by (rule bspec)
    then obtain s where s: "String_of v = Some s" by auto
    from prepare_request_built [OF u q ok, of m] ne obtain req params where
      req: "prepare_request e m path ?o (this_uri this) = Inr req"
      and ps: "list_all2 (\<lambda>kv ks. fst ks = fst kv \<and> String_of (snd kv) = Some (snd ks))
          (Object_entries ?q) params"
      and url: "url req = prefix_part u
          @ ''?'' @ serialize_params (searchParams u @ params)
          @ (case fragment_part u of None \<Rightarrow> [] | Some f \<Rightarrow> ''#'' @ f)"
      by auto
    from mem s have "(''data'', s) \<in> set params"
      by (intro list_all2_paramD [OF ps, of "''data''" v]) (simp_all add: set_Object_entries)
    with req url s show ?thesis by blast
  qed
  have rejected: "Trello_makeRequest e this (JStr m) path (JObj ps) w =
                    Some (Inl (TypeError ''Cannot convert object to primitive value''),
                          JObj (filter (\<lambda>kv. fst kv \<noteq> ''data'') ps), w)"
    if m: "m = ''POST_JSON'' \<or> m = ''PUT_JSON''"
      and bad: "\<exists>kv\<in>set ?q. String_of (snd kv) = None"
      and u: "\<exists>u. URL_parse e (this_uri this @ path) = Some u"
  proof -
    from u obtain u where u: "URL_parse e (this_uri this @ path) = Some u" by blast
    have q: "query ?o = Some ?q" by simp
    have "prepare_request e m path ?o (this_uri this)
            = Inl (TypeError ''Cannot convert object to primitive value'')"
      using u q bad by (rule prepare_request_unconvertible)
    then have "makeRequest e m path ?o (this_uri this) w
            = Some (Inl (TypeError ''Cannot convert object to primitive value''), w)"
      by (subst makeRequest.simps) simp
    with run [OF m] show ?thesis by simp
  qed
  have other: "options' = JObj ps"
    if rm: "requestMethod \<noteq> JStr ''POST_JSON'' \<and> requestMethod \<noteq> JStr ''PUT_JSON''"
      and r: "Trello_makeRequest e this requestMethod path (JObj ps) w = Some (res, options', w')"
    for res options' w'
  proof (cases requestMethod)
    case (JStr s)
    with rm r show ?thesis
      by (auto simp: Trello_makeRequest_def Let_def the_string_def)
  qed (use r in \<open>auto simp: Trello_makeRequest_def Let_def\<close>)
  from run keeps built rejected other show ?thesis by blast
qed

text \<open>A \<^verbatim>\<open>PUT_JSON\<close> call with data, and the same options under \<^verbatim>\<open>GET\<close>.\<close>

theorem Trello_makeRequest_deletes_data_witness:
  "distinct (map fst [(''data'', JObj [(''name'', JStr ''Updated'')]), (''x'', JNum 1)])
   \<and> Trello_makeRequest (mock_env [createMockResponse (JObj []) None None] createRateLimitResponse)
       test_trello (JStr ''PUT_JSON'') ''/1/cards/card123''
       (JObj [(''data'', JObj [(''name'', JStr ''Updated'')]), (''x'', JNum 1)]) world0
     = Some (Inr (JObj []), JObj [(''x'', JNum 1)],
        \<lparr>calls = [\<lparr>url = ''https://api.trello.com/1/cards/card123?data=%5Bobject+Object%5D&x=1&key=key&token=token'',
                   init_method = ''PUT_JSON'', init_headers = None, init_body = None\<rparr>],
         delays = []\<rparr>)
   \<and> (''data'', JObj [(''name'', JStr ''Updated'')])
       \<in> set (spread (Object_entries [(''data'', JObj [(''name'', JStr ''Updated'')]), (''x'', JNum 1)])
                 (createQuery test_trello))
   \<and> Trello_makeRequest (mock_env [createMockResponse (JObj []) None None] createRateLimitResponse)
       test_trello (JStr ''GET'') ''/1/cards/card123''
       (JObj [(''data'', JObj [(''name'', JStr ''Updated'')]), (''x'', JNum 1)]) world0
     = Some (Inr (JObj []), JObj [(''data'', JObj [(''name'', JStr ''Updated'')]), (''x'', JNum 1)],
        \<lparr>calls = [\<lparr>url = ''https://api.trello.com/1/cards/card123?data=%5Bobject+Object%5D&x=1&key=key&token=token'',
                   init_method = ''GET'', init_headers = None, init_body = None\<rparr>],
         delays = []\<rparr>)"
proof -
  let ?ps = "[(''data'', JObj [(''name'', JStr ''Updated'')]), (''x'', JNum 1)]"
  let ?e = "mock_env [createMockResponse (JObj []) None None] createRateLimitResponse"
  have d: "distinct (map fst ?ps)" by simp
  have run: "map_option (\<lambda>(r, w'). (r, JObj (filter (\<lambda>kv. fst kv \<noteq> ''data'') ?ps), w'))
       (makeRequest ?e ''PUT_JSON'' ''/1/cards/card123''
          \<lparr>headers = Some [(''Content-Type'', ''application/json'')],
           data = (case map_of ?ps ''data'' of None \<Rightarrow> JUndefined | Some v \<Rightarrow> v),
           query = Some (spread (Object_entries ?ps) (createQuery test_trello))\<rparr>
          (this_uri test_trello) world0)
     = Some (Inr (JObj []), JObj [(''x'', JNum 1)],
        \<lparr>calls = [\<lparr>url = ''https://api.trello.com/1/cards/card123?data=%5Bobject+Object%5D&x=1&key=key&token=token'',
                   init_method = ''PUT_JSON'', init_headers = None, init_body = None\<rparr>],
         delays = []\<rparr>)"
    by code_simp
  have mem: "(''data'', JObj [(''name'', JStr ''Updated'')]) \<in> set ?ps" by simp
  have get: "Trello_makeRequest ?e test_trello (JStr ''GET'') ''/1/cards/card123'' (JObj ?ps) world0
     = Some (Inr (JObj []), JObj ?ps,
        \<lparr>calls = [\<lparr>url = ''https://api.trello.com/1/cards/card123?data=%5Bobject+Object%5D&x=1&key=key&token=token'',
                   init_method = ''GET'', init_headers = None, init_body = None\<rparr>],
         delays = []\<rparr>)"
    by code_simp
  from Trello_makeRequest_deletes_data
    [OF d, of "''PUT_JSON''" ?e test_trello "''/1/cards/card123''" world0 "JStr ''GET''"]
  have "Trello_makeRequest ?e test_trello (JStr ''PUT_JSON'') ''/1/cards/card123'' (JObj ?ps) world0
      = map_option (\<lambda>(r, w'). (r, JObj (filter (\<lambda>kv. fst kv \<noteq> ''data'') ?ps), w'))
       (makeRequest ?e ''PUT_JSON'' ''/1/cards/card123''
          \<lparr>headers = Some [(''Content-Type'', ''application/json'')],
           data = (case map_of ?ps ''data'' of None \<Rightarrow> JUndefined | Some v \<Rightarrow> v),
           query = Some (spread (Object_entries ?ps) (createQuery test_trello))\<rparr>
          (this_uri test_trello) world0)"
    and "(''data'', JObj [(''name'', JStr ''Updated'')])
       \<in> set (spread (Object_entries ?ps) (createQuery test_trello))"
    using mem by blast+
  with run d get show ?thesis by simp
qed

end
